theory Spec2Isabelle
  imports Main "HOL-Library.Word"
begin

unbundle bit_operations_syntax

section \<open>The container launcher of nsinit (pkg/libcontainer/nsinit/exec.go)\<close>

text \<open>
  \<open>execCommand\<close> starts the container's init process and then drives a fixed sequence of
  calls into the operating system and into sibling packages (cgroups, network, term).
  The embedding keeps the control flow of the Go source and makes its effects explicit:
  \<^item> every external call is recorded, in program order, as an \<open>event\<close> appended to the
    \<open>trace\<close> of the \<open>world\<close>;
  \<^item> what an external call answers is read from an \<open>env\<close> record, one field per call
    (so an error of a collaborator is an input of the model, and every
    \<open>if err != nil\<close> of the source is a branch);
  \<^item> the two pieces of outside state the launcher owns are part of the \<open>world\<close>: the
    files it writes and removes, and the control channel (the child's stdin pipe);
  \<^item> a \<open>defer\<close> is the code after the deferred scope's result has been computed.

  A call whose result the source inspects can fail in the model. Of the calls whose
  result the source drops, the write into the pipe can fail as well (its peer is the
  child, which may be gone); \<open>Process.Kill\<close>, the close of the pipe and the removal of the
  marker file, which act on what the launcher itself has just created, are modelled by
  their effect.
\<close>

subsection \<open>Data\<close>

text \<open>
  A Go \<open>error\<close> is an interface value. The source inspects its dynamic type once
  (\<open>err.(*exec.ExitError)\<close>), so the model keeps that one distinction.
\<close>

datatype error = ExitError string | Error string

fun is_ExitError :: "error \<Rightarrow> bool" where
  "is_ExitError (ExitError _) = True"
| "is_ExitError (Error _) = False"

type_synonym FileMode = "32 word"
type_synonym fd = nat
type_synonym State = nat

record fsfile =
  content :: string
  perm :: FileMode

text \<open>The fields of \<open>libcontainer.Container\<close> that \<open>exec.go\<close> reads.\<close>

datatype Cgroup = Cgroup string

datatype Winsize = Winsize nat nat

text \<open>
  \<open>syscall.WaitStatus\<close>, the value behind \<open>ProcessState.Sys()\<close>: the child exited with
  an eight-bit status, or it was ended by a signal, or it is stopped or continued.
  \<open>ExitStatus()\<close> is the status of a child that exited and \<open>-1\<close> otherwise.
\<close>

datatype WaitStatus = Exited "8 word" | Signaled nat | Stopped nat | Continued

fun ExitStatus :: "WaitStatus \<Rightarrow> int" where
  "ExitStatus (Exited status) = uint status"
| "ExitStatus (Signaled sig) = - 1"
| "ExitStatus (Stopped sig) = - 1"
| "ExitStatus Continued = - 1"

record Network =
  Bridge :: string

record Container =
  Namespaces :: "string list"
  Cgroups :: "Cgroup option"
  Network :: "Network option"

text \<open>\<open>exec.Cmd\<close> as \<open>createCommand\<close> fills it.\<close>

record Cmd =
  Path :: string
  Args :: "string list"
  Cloneflags :: "64 word"

datatype copy_task = MasterToStdout | StdinToMaster

datatype event =
    EvOpenFile string
  | EvPtsname fd
  | EvUnlockpt fd
  | EvStdinPipe
  | EvStart Cmd
  | EvWriteFile string string FileMode
  | EvRemove string
  | EvKill int
  | EvCgroupsApply Cgroup int
  | EvGenerateRandomName string nat
  | EvCreateVethPair string string
  | EvSetInterfaceMaster string string
  | EvInterfaceUp string
  | EvSetInterfaceInNamespacePid string int
  | EvPipeWrite string
  | EvPipeClose
  | EvGo copy_task
  | EvGetWinsize
  | EvSetWinsize fd Winsize
  | EvSetRawTerminal
  | EvRestoreTerminal State
  | EvWait

text \<open>
  The outcome of \<open>ioutil.WriteFile\<close>: success, or an error together with whatever the
  failed call left at the path (nothing, the old file, a truncated file).
\<close>

datatype writefile_outcome = WriteFileOk | WriteFileFailed error "fsfile option"

text \<open>
  The outcome of a write into the pipe: everything written, or an error after the first
  \<open>n\<close> bytes.
\<close>

datatype write_outcome = WriteOk | WriteFailed nat error

record env =
  getNamespaceFlags_res :: "string list \<Rightarrow> int"
  LookPath_res :: "string \<Rightarrow> error + string"
  Umask :: FileMode
  OpenFile_res :: "error + fd"
  Ptsname_res :: "error + string"
  Unlockpt_res :: "error option"
  StdinPipe_res :: "error option"
  Start_res :: "error + int"
  WriteFile_res :: writefile_outcome
  Apply_res :: "Cgroup \<Rightarrow> int \<Rightarrow> error option"
  rand_res :: "nat \<Rightarrow> error + string"
  CreateVethPair_res :: "string \<Rightarrow> string \<Rightarrow> error option"
  SetInterfaceMaster_res :: "string \<Rightarrow> string \<Rightarrow> error option"
  InterfaceUp_res :: "string \<Rightarrow> error option"
  SetInterfaceInNamespacePid_res :: "string \<Rightarrow> int \<Rightarrow> error option"
  Fprint_res :: write_outcome
  GetWinsize_res :: "error + Winsize"
  SetWinsize_res :: "error option"
  SetRawTerminal_res :: "error + State"
  Wait_res :: "error option"
  WaitStatus_res :: WaitStatus

record world =
  trace :: "event list"
  files :: "string \<Rightarrow> fsfile option"
  pipe_data :: string
  pipe_closed :: bool
  rand_reads :: nat

definition init_world :: "(string \<Rightarrow> fsfile option) \<Rightarrow> world" where
  "init_world fs =
     \<lparr>trace = [], files = fs, pipe_data = [], pipe_closed = False, rand_reads = 0\<rparr>"

definition emit :: "event \<Rightarrow> world \<Rightarrow> world" where
  "emit e w = w\<lparr>trace := trace w @ [e]\<rparr>"

subsection \<open>Library calls with an effect on the world\<close>

text \<open>
  \<open>fmt.Sprint\<close> of an \<open>int\<close>: base ten, a minus sign for a negative number.
\<close>

definition digit :: "nat \<Rightarrow> char" where
  "digit d = ''0123456789'' ! d"

fun digits :: "nat \<Rightarrow> string" where
  "digits n = (if n < 10 then [digit n] else digits (n div 10) @ [digit (n mod 10)])"

declare digits.simps [simp del]

definition Sprint :: "int \<Rightarrow> string" where
  "Sprint i = (if i < 0 then CHR ''-'' # digits (nat (- i)) else digits (nat i))"

text \<open>
  \<open>ioutil.WriteFile(path, data, perm)\<close> opens the path with \<open>O_CREATE|O_TRUNC\<close>: on
  success the path holds exactly \<open>data\<close>; a file that was already there keeps its mode,
  and a new file gets \<open>perm\<close> without the bits of the process umask.
\<close>

definition WriteFile :: "string \<Rightarrow> string \<Rightarrow> FileMode \<Rightarrow> env \<Rightarrow> world \<Rightarrow> error option \<times> world" where
  "WriteFile path data mode env w =
     (let w1 = emit (EvWriteFile path data mode) w in
      case WriteFile_res env of
        WriteFileOk \<Rightarrow>
          (None,
           w1\<lparr>files := (files w1)(path \<mapsto>
                \<lparr>content = data,
                 perm = (case files w1 path of
                           Some old \<Rightarrow> perm old
                         | None \<Rightarrow> mode AND NOT (Umask env))\<rparr>)\<rparr>)
      | WriteFileFailed err left \<Rightarrow> (Some err, w1\<lparr>files := (files w1)(path := left)\<rparr>))"

text \<open>
  \<open>os.Remove(path)\<close>: removes the file when it is there and reports an error when it is
  not. The launcher removes only the file it has itself just written.
\<close>

definition Remove :: "string \<Rightarrow> world \<Rightarrow> error option \<times> world" where
  "Remove path w =
     (let w1 = emit (EvRemove path) w in
      case files w1 path of
        None \<Rightarrow> (Some (Error ''no such file or directory''), w1)
      | Some f \<Rightarrow> (None, w1\<lparr>files := (files w1)(path := None)\<rparr>))"

text \<open>
  \<open>fmt.Fprint(pipe, name)\<close>: one write of the whole string. A write into a closed pipe
  adds nothing.
\<close>

definition Fprint :: "string \<Rightarrow> env \<Rightarrow> world \<Rightarrow> (nat \<times> error option) \<times> world" where
  "Fprint s env w =
     (let w1 = emit (EvPipeWrite s) w in
      if pipe_closed w1 then ((0, Some (Error ''write on closed pipe'')), w1)
      else case Fprint_res env of
        WriteOk \<Rightarrow> ((length s, None), w1\<lparr>pipe_data := pipe_data w1 @ s\<rparr>)
      | WriteFailed n err \<Rightarrow> ((min n (length s), Some err), w1\<lparr>pipe_data := pipe_data w1 @ take n s\<rparr>))"

definition Close :: "world \<Rightarrow> world" where
  "Close w = (emit EvPipeClose w)\<lparr>pipe_closed := True\<rparr>"

text \<open>
  Modelled from the spec: \<open>utils.GenerateRandomName(prefix, size)\<close> lives in
  pkg/libcontainer/utils, which is not among the sources. The spec gives the naming scheme
  as a fixed short prefix followed by a random suffix of \<open>size\<close> characters. The random
  characters of the \<open>k\<close>-th read of the random source come from \<open>rand_res env k\<close>, and a failed
  read is the call's error.
\<close>

definition GenerateRandomName :: "string \<Rightarrow> nat \<Rightarrow> env \<Rightarrow> world \<Rightarrow> (error + string) \<times> world" where
  "GenerateRandomName prefix sz env w =
     (let w1 = (emit (EvGenerateRandomName prefix sz) w)\<lparr>rand_reads := Suc (rand_reads w)\<rparr> in
      case rand_res env (rand_reads w) of
        Inl err \<Rightarrow> (Inl err, w1)
      | Inr rnd \<Rightarrow> (Inr (prefix @ take sz rnd), w1))"

subsection \<open>The functions of exec.go\<close>

text \<open>Lines 120-135.\<close>

definition createMasterAndConsole :: "env \<Rightarrow> world \<Rightarrow> (error + fd \<times> string) \<times> world" where
  "createMasterAndConsole env w =
     (let w1 = emit (EvOpenFile ''/dev/ptmx'') w in
      case OpenFile_res env of
        Inl err \<Rightarrow> (Inl err, w1)
      | Inr master \<Rightarrow>
          (let w2 = emit (EvPtsname master) w1 in
           case Ptsname_res env of
             Inl err \<Rightarrow> (Inl err, w2)
           | Inr console \<Rightarrow>
               (let w3 = emit (EvUnlockpt master) w2 in
                case Unlockpt_res env of
                  Some err \<Rightarrow> (Inl err, w3)
                | None \<Rightarrow> (Inr (master, console), w3))))"

text \<open>
  Lines 166-172. \<open>exec.Command(name, arg...)\<close> puts \<open>name\<close> in front of the arguments
  and, for a name without a directory, looks it up in \<open>$PATH\<close>; when the lookup fails the
  path stays the name (and \<open>Start\<close> will report the error). \<open>getNamespaceFlags\<close> is
  defined elsewhere in the package; its value is a parameter (\<open>getNamespaceFlags_res\<close>),
  converted to \<open>uintptr\<close>.
\<close>

definition createCommand :: "Container \<Rightarrow> string \<Rightarrow> string list \<Rightarrow> env \<Rightarrow> Cmd" where
  "createCommand container console args env =
     \<lparr>Path = (case LookPath_res env ''nsinit'' of Inr path \<Rightarrow> path | Inl err \<Rightarrow> ''nsinit''),
      Args = ''nsinit'' # [''-console'', console, ''init''] @ args,
      Cloneflags = word_of_int (getNamespaceFlags_res env (Namespaces container))\<rparr>"

text \<open>Lines 155-157. The mode is the octal literal \<open>0655\<close>, which is 429.\<close>

definition writePidFile :: "int \<Rightarrow> env \<Rightarrow> world \<Rightarrow> error option \<times> world" where
  "writePidFile pid env w = WriteFile ''.nspid'' (Sprint pid) 429 env w"

text \<open>Lines 159-161.\<close>

definition deletePidFile :: "world \<Rightarrow> error option \<times> world" where
  "deletePidFile w = Remove ''.nspid'' w"

text \<open>Lines 139-152.\<close>

definition createVethPair :: "env \<Rightarrow> world \<Rightarrow> (error + string \<times> string) \<times> world" where
  "createVethPair env w =
     (case GenerateRandomName ''dock'' 4 env w of
        (Inl err, w1) \<Rightarrow> (Inl err, w1)
      | (Inr name1, w1) \<Rightarrow>
          (case GenerateRandomName ''dock'' 4 env w1 of
             (Inl err, w2) \<Rightarrow> (Inl err, w2)
           | (Inr name2, w2) \<Rightarrow>
               (let w3 = emit (EvCreateVethPair name1 name2) w2 in
                case CreateVethPair_res env name1 name2 of
                  Some err \<Rightarrow> (Inl err, w3)
                | None \<Rightarrow> (Inr (name1, name2), w3))))"

text \<open>Lines 92-107.\<close>

definition initializeContainerVeth :: "string \<Rightarrow> int \<Rightarrow> env \<Rightarrow> world \<Rightarrow> (error + string) \<times> world" where
  "initializeContainerVeth bridge nspid env w =
     (case createVethPair env w of
        (Inl err, w1) \<Rightarrow> (Inl err, w1)
      | (Inr (name1, name2), w1) \<Rightarrow>
          (let w2 = emit (EvSetInterfaceMaster name1 bridge) w1 in
           case SetInterfaceMaster_res env name1 bridge of
             Some err \<Rightarrow> (Inl err, w2)
           | None \<Rightarrow>
               (let w3 = emit (EvInterfaceUp name1) w2 in
                case InterfaceUp_res env name1 of
                  Some err \<Rightarrow> (Inl err, w3)
                | None \<Rightarrow>
                    (let w4 = emit (EvSetInterfaceInNamespacePid name2 nspid) w3 in
                     case SetInterfaceInNamespacePid_res env name2 nspid of
                       Some err \<Rightarrow> (Inl err, w4)
                     | None \<Rightarrow> (Inr name2, w4)))))"

text \<open>Lines 81-83: the results of \<open>fmt.Fprint\<close> are dropped.\<close>

definition sendVethName :: "string \<Rightarrow> env \<Rightarrow> world \<Rightarrow> world" where
  "sendVethName name env w = snd (Fprint name env w)"

text \<open>Lines 109-118.\<close>

definition setupWindow :: "fd \<Rightarrow> env \<Rightarrow> world \<Rightarrow> (error + State) \<times> world" where
  "setupWindow master env w =
     (let w1 = emit EvGetWinsize w in
      case GetWinsize_res env of
        Inl err \<Rightarrow> (Inl err, w1)
      | Inr ws \<Rightarrow>
          (let w2 = emit (EvSetWinsize master ws) w1 in
           case SetWinsize_res env of
             Some err \<Rightarrow> (Inl err, w2)
           | None \<Rightarrow> (SetRawTerminal_res env, emit EvSetRawTerminal w2)))"

text \<open>
  \<open>execCommand\<close>, lines 19-77, from the last part to the first, cut where a \<open>defer\<close> opens
  a scope. Lines 71-76: wait for the child and translate the result.
\<close>

definition execCommand_wait :: "env \<Rightarrow> world \<Rightarrow> (int \<times> error option) \<times> world" where
  "execCommand_wait env w =
     (let w1 = emit EvWait w in
      case Wait_res env of
        Some err \<Rightarrow>
          (if \<not> is_ExitError err then ((- 1, Some err), w1)
           else ((ExitStatus (WaitStatus_res env), None), w1))
      | None \<Rightarrow> ((ExitStatus (WaitStatus_res env), None), w1))"

text \<open>
  Lines 61-69: the two copy tasks, the terminal, and \<open>defer term.RestoreTerminal\<close> around
  the wait.
\<close>

definition execCommand_attach :: "fd \<Rightarrow> int \<Rightarrow> env \<Rightarrow> world \<Rightarrow> (int \<times> error option) \<times> world" where
  "execCommand_attach master pid env w =
     (let w1 = emit (EvGo MasterToStdout) w;
          w2 = emit (EvGo StdinToMaster) w1 in
      case setupWindow master env w2 of
        (Inl err, w3) \<Rightarrow> ((- 1, Some err), emit (EvKill pid) w3)
      | (Inr state, w3) \<Rightarrow>
          (case execCommand_wait env w3 of
             (r, w4) \<Rightarrow> (r, emit (EvRestoreTerminal state) w4)))"

text \<open>Lines 50-59: the network, the name for the child, and the close of the pipe.\<close>

definition execCommand_sync :: "Container \<Rightarrow> fd \<Rightarrow> int \<Rightarrow> env \<Rightarrow> world \<Rightarrow> (int \<times> error option) \<times> world" where
  "execCommand_sync container master pid env w =
     (case Network container of
        Some net \<Rightarrow>
          (case initializeContainerVeth (Bridge net) pid env w of
             (Inl err, w1) \<Rightarrow> ((- 1, Some err), w1)
           | (Inr vethPair, w1) \<Rightarrow>
               execCommand_attach master pid env (Close (sendVethName vethPair env w1)))
      | None \<Rightarrow> execCommand_attach master pid env (Close w))"

text \<open>Lines 41-48: the cgroup.\<close>

definition execCommand_limit :: "Container \<Rightarrow> fd \<Rightarrow> int \<Rightarrow> env \<Rightarrow> world \<Rightarrow> (int \<times> error option) \<times> world" where
  "execCommand_limit container master pid env w =
     (case Cgroups container of
        Some cg \<Rightarrow>
          (let w1 = emit (EvCgroupsApply cg pid) w in
           case Apply_res env cg pid of
             Some err \<Rightarrow> ((- 1, Some err), emit (EvKill pid) w1)
           | None \<Rightarrow> execCommand_sync container master pid env w1)
      | None \<Rightarrow> execCommand_sync container master pid env w)"

text \<open>
  Lines 19-39, and \<open>defer deletePidFile()\<close> around everything after line 39.
\<close>

definition execCommand :: "Container \<Rightarrow> string list \<Rightarrow> env \<Rightarrow> world \<Rightarrow> (int \<times> error option) \<times> world" where
  "execCommand container args env w =
     (case createMasterAndConsole env w of
        (Inl err, w1) \<Rightarrow> ((- 1, Some err), w1)
      | (Inr (master, console), w1) \<Rightarrow>
          (let command = createCommand container console args env;
               w2 = emit EvStdinPipe w1 in
           case StdinPipe_res env of
             Some err \<Rightarrow> ((- 1, Some err), w2)
           | None \<Rightarrow>
               (let w3 = emit (EvStart command) w2 in
                case Start_res env of
                  Inl err \<Rightarrow> ((- 1, Some err), w3)
                | Inr pid \<Rightarrow>
                    (case writePidFile pid env w3 of
                       (Some err, w4) \<Rightarrow> ((- 1, Some err), emit (EvKill pid) w4)
                     | (None, w4) \<Rightarrow>
                         (case execCommand_limit container master pid env w4 of
                            (r, w5) \<Rightarrow> (r, snd (deletePidFile w5)))))))"

subsection \<open>Vocabulary for the paths of \<open>execCommand\<close>\<close>

text \<open>
  The events of the segments of a launch, and the conditions under which the launch gets
  past each segment. They name the parts of the path table below; no theorem about the
  launcher is stated in terms of them.
\<close>

definition start_events :: "fd \<Rightarrow> Cmd \<Rightarrow> event list" where
  "start_events master cmd =
     [EvOpenFile ''/dev/ptmx'', EvPtsname master, EvUnlockpt master, EvStdinPipe, EvStart cmd]"

definition limit_events :: "Container \<Rightarrow> int \<Rightarrow> event list" where
  "limit_events c pid = (case Cgroups c of None \<Rightarrow> [] | Some cg \<Rightarrow> [EvCgroupsApply cg pid])"

definition veth_events :: "string \<Rightarrow> int \<Rightarrow> string \<Rightarrow> string \<Rightarrow> event list" where
  "veth_events bridge pid name1 name2 =
     [EvGenerateRandomName ''dock'' 4, EvGenerateRandomName ''dock'' 4,
      EvCreateVethPair name1 name2, EvSetInterfaceMaster name1 bridge, EvInterfaceUp name1,
      EvSetInterfaceInNamespacePid name2 pid]"

definition window_events :: "fd \<Rightarrow> Winsize \<Rightarrow> event list" where
  "window_events master ws =
     [EvGo MasterToStdout, EvGo StdinToMaster, EvGetWinsize, EvSetWinsize master ws,
      EvSetRawTerminal]"

definition piped :: "write_outcome \<Rightarrow> string \<Rightarrow> string" where
  "piped out s = (case out of WriteOk \<Rightarrow> s | WriteFailed n err \<Rightarrow> take n s)"

definition started :: "env \<Rightarrow> fd \<Rightarrow> string \<Rightarrow> int \<Rightarrow> bool" where
  "started env master console pid \<longleftrightarrow>
     OpenFile_res env = Inr master \<and> Ptsname_res env = Inr console \<and> Unlockpt_res env = None \<and>
     StdinPipe_res env = None \<and> Start_res env = Inr pid"

definition limited :: "Container \<Rightarrow> env \<Rightarrow> int \<Rightarrow> bool" where
  "limited c env pid \<longleftrightarrow>
     WriteFile_res env = WriteFileOk \<and>
     (case Cgroups c of None \<Rightarrow> True | Some cg \<Rightarrow> Apply_res env cg pid = None)"

definition named :: "env \<Rightarrow> string \<Rightarrow> string \<Rightarrow> bool" where
  "named env name1 name2 \<longleftrightarrow>
     (case (rand_res env 0, rand_res env (Suc 0)) of
        (Inr r1, Inr r2) \<Rightarrow> name1 = ''dock'' @ take 4 r1 \<and> name2 = ''dock'' @ take 4 r2
      | _ \<Rightarrow> False)"

definition setup_events :: "Container \<Rightarrow> fd \<Rightarrow> Cmd \<Rightarrow> int \<Rightarrow> event list" where
  "setup_events c master cmd pid =
     start_events master cmd @ [EvWriteFile ''.nspid'' (Sprint pid) 429] @ limit_events c pid"

definition synced :: "Container \<Rightarrow> env \<Rightarrow> int \<Rightarrow> string \<Rightarrow> string \<Rightarrow> bool" where
  "synced c env pid name1 name2 \<longleftrightarrow>
     (case Network c of
        None \<Rightarrow> True
      | Some net \<Rightarrow>
          named env name1 name2 \<and> CreateVethPair_res env name1 name2 = None \<and>
          SetInterfaceMaster_res env name1 (Bridge net) = None \<and>
          InterfaceUp_res env name1 = None \<and>
          SetInterfaceInNamespacePid_res env name2 pid = None)"

definition sync_events :: "Container \<Rightarrow> int \<Rightarrow> string \<Rightarrow> string \<Rightarrow> event list" where
  "sync_events c pid name1 name2 =
     (case Network c of
        None \<Rightarrow> []
      | Some net \<Rightarrow> veth_events (Bridge net) pid name1 name2 @ [EvPipeWrite name2]) @
     [EvPipeClose]"

definition sync_pipe :: "Container \<Rightarrow> env \<Rightarrow> string \<Rightarrow> string" where
  "sync_pipe c env name2 =
     (case Network c of None \<Rightarrow> [] | Some net \<Rightarrow> piped (Fprint_res env) name2)"

definition sync_reads :: "Container \<Rightarrow> nat" where
  "sync_reads c = (case Network c of None \<Rightarrow> 0 | Some net \<Rightarrow> 2)"

subsection \<open>Vocabulary for the properties\<close>

text \<open>The calls into the network package that act on interfaces and namespaces.\<close>

fun is_network_op :: "event \<Rightarrow> bool" where
  "is_network_op (EvCreateVethPair _ _) = True"
| "is_network_op (EvSetInterfaceMaster _ _) = True"
| "is_network_op (EvInterfaceUp _) = True"
| "is_network_op (EvSetInterfaceInNamespacePid _ _) = True"
| "is_network_op _ = False"

text \<open>
  \<open>guarded_by P Q tr\<close>: no element with \<open>Q\<close> occurs in \<open>tr\<close> unless an element with
  \<open>P\<close> (and without \<open>Q\<close>) occurs earlier.
\<close>

fun guarded_by :: "('a \<Rightarrow> bool) \<Rightarrow> ('a \<Rightarrow> bool) \<Rightarrow> 'a list \<Rightarrow> bool" where
  "guarded_by P Q [] = True"
| "guarded_by P Q (x # xs) = (\<not> Q x \<and> (P x \<or> guarded_by P Q xs))"

text \<open>Every call of \<open>utils.GenerateRandomName\<close>.\<close>

fun is_name_generation :: "event \<Rightarrow> bool" where
  "is_name_generation (EvGenerateRandomName _ _) = True"
| "is_name_generation _ = False"

text \<open>Every call of \<open>network.CreateVethPair\<close>.\<close>

fun is_veth_creation :: "event \<Rightarrow> bool" where
  "is_veth_creation (EvCreateVethPair _ _) = True"
| "is_veth_creation _ = False"

text \<open>
  \<open>cut_at x tr\<close> cuts a trace at the first occurrence of \<open>x\<close>: what comes before it and
  what comes after it.
\<close>

fun cut_at :: "'a \<Rightarrow> 'a list \<Rightarrow> ('a list \<times> 'a list) option" where
  "cut_at x [] = None"
| "cut_at x (y # ys) =
     (if x = y then Some ([], ys)
      else (case cut_at x ys of None \<Rightarrow> None | Some (a, b) \<Rightarrow> Some (y # a, b)))"





text \<open>
  Reading decimal text back: the value of a string of digits, with an optional leading
  minus sign.
\<close>

definition is_digit :: "char \<Rightarrow> bool" where
  "is_digit ch \<longleftrightarrow> ch \<in> set ''0123456789''"

definition digit_value :: "char \<Rightarrow> nat" where
  "digit_value ch = of_char ch - 48"

definition decimal_value :: "string \<Rightarrow> nat" where
  "decimal_value s = foldl (\<lambda>acc ch. 10 * acc + digit_value ch) 0 s"

definition decimal_int :: "string \<Rightarrow> int" where
  "decimal_int s =
     (case s of
        [] \<Rightarrow> 0
      | ch # ds \<Rightarrow> if ch = CHR ''-'' then - int (decimal_value ds) else int (decimal_value s))"

text \<open>
  Permission bits of a file mode: owner read and write, group read, other read
  (octal \<open>0400\<close>, \<open>0200\<close>, \<open>0040\<close>, \<open>0004\<close>).
\<close>

definition allows :: "FileMode \<Rightarrow> FileMode \<Rightarrow> bool" where
  "allows mode bits \<longleftrightarrow> mode AND bits = bits"

definition S_IRUSR :: FileMode where "S_IRUSR = 256"
definition S_IWUSR :: FileMode where "S_IWUSR = 128"
definition S_IRGRP :: FileMode where "S_IRGRP = 32"
definition S_IROTH :: FileMode where "S_IROTH = 4"

subsection \<open>Concrete launches\<close>

text \<open>
  A container with a cgroup and a bridge, an environment in which every call succeeds and
  the child exits with status 0 (the umask is the usual \<open>022\<close>), and variants of it in
  which one call answers otherwise; \<open>63\<close> is the umask \<open>077\<close>.
\<close>

definition no_files :: "string \<Rightarrow> fsfile option" where
  "no_files = (\<lambda>path. None)"

definition container_full :: Container where
  "container_full =
     \<lparr>Namespaces = [''NEWNS'', ''NEWPID'', ''NEWNET''], Cgroups = Some (Cgroup ''docker''),
      Network = Some \<lparr>Bridge = ''docker0''\<rparr>\<rparr>"

definition env_ok :: env where
  "env_ok =
     \<lparr>getNamespaceFlags_res = (\<lambda>ns. 0),
      LookPath_res = (\<lambda>name. Inr (''/usr/bin/'' @ name)), Umask = 18,
      OpenFile_res = Inr 3, Ptsname_res = Inr ''/dev/pts/7'', Unlockpt_res = None,
      StdinPipe_res = None, Start_res = Inr 4242, WriteFile_res = WriteFileOk,
      Apply_res = (\<lambda>cg pid. None),
      rand_res = (\<lambda>k. if k = 0 then Inr ''0a1b2c3d'' else Inr ''9f8e7d6c''),
      CreateVethPair_res = (\<lambda>name1 name2. None),
      SetInterfaceMaster_res = (\<lambda>name bridge. None),
      InterfaceUp_res = (\<lambda>name. None),
      SetInterfaceInNamespacePid_res = (\<lambda>name pid. None),
      Fprint_res = WriteOk, GetWinsize_res = Inr (Winsize 24 80), SetWinsize_res = None,
      SetRawTerminal_res = Inr 1, Wait_res = None,
      WaitStatus_res = Exited 0\<rparr>"

definition cmd_sh :: Cmd where
  "cmd_sh =
     \<lparr>Path = ''/usr/bin/nsinit'',
      Args = [''nsinit'', ''-console'', ''/dev/pts/7'', ''init'', ''sh''], Cloneflags = 0\<rparr>"

definition env_exit17 :: env where
  "env_exit17 =
     env_ok\<lparr>Wait_res := Some (ExitError ''exit status 17''), WaitStatus_res := Exited 17\<rparr>"

definition env_signalled :: env where
  "env_signalled =
     env_ok\<lparr>Wait_res := Some (ExitError ''signal: killed''), WaitStatus_res := Signaled 9\<rparr>"

definition env_umask_077 :: env where
  "env_umask_077 = env_ok\<lparr>Umask := 63\<rparr>"

definition env_wait_lost :: env where
  "env_wait_lost = env_ok\<lparr>Wait_res := Some (Error ''wait: no child processes'')\<rparr>"

definition env_no_pty :: env where
  "env_no_pty = env_ok\<lparr>OpenFile_res := Inl (Error ''open /dev/ptmx: permission denied'')\<rparr>"

definition env_limit_fails :: env where
  "env_limit_fails = env_ok\<lparr>Apply_res := (\<lambda>cg pid. Some (Error ''cgroup: permission denied''))\<rparr>"

definition env_veth_exists :: env where
  "env_veth_exists = env_ok\<lparr>CreateVethPair_res := (\<lambda>name1 name2. Some (Error ''file exists''))\<rparr>"

definition env_bridge_missing :: env where
  "env_bridge_missing =
     env_ok\<lparr>SetInterfaceMaster_res := (\<lambda>name bridge. Some (Error ''no such device''))\<rparr>"

definition env_broken_pipe :: env where
  "env_broken_pipe = env_ok\<lparr>Fprint_res := WriteFailed 0 (Error ''broken pipe'')\<rparr>"

definition env_twin :: env where
  "env_twin = env_ok\<lparr>rand_res := (\<lambda>k. Inr ''0a1b2c3d'')\<rparr>"

definition env_marker_fails :: env where
  "env_marker_fails =
     env_ok\<lparr>WriteFile_res := WriteFileFailed (Error ''read-only file system'') None\<rparr>"

section \<open>The paths of a launch\<close>

text \<open>
  \<open>execCommand\<close> is a chain of calls, each of which either ends the launch or lets it go
  on. Every way through the chain is evaluated once, to the result and the world it ends
  in; the properties of the launch are then read off these eighteen paths.
\<close>

subsection \<open>One path at a time\<close>

lemmas exec_defs = execCommand_def execCommand_limit_def execCommand_sync_def
  execCommand_attach_def execCommand_wait_def setupWindow_def sendVethName_def
  initializeContainerVeth_def createVethPair_def deletePidFile_def writePidFile_def
  createMasterAndConsole_def GenerateRandomName_def Close_def Fprint_def
  Remove_def WriteFile_def emit_def init_world_def Let_def

lemmas path_defs = start_events_def limit_events_def veth_events_def window_events_def
  piped_def started_def limited_def named_def setup_events_def synced_def
  sync_events_def sync_pipe_def sync_reads_def

lemma path_open:
  "OpenFile_res env = Inl err \<Longrightarrow>
   execCommand c args env (init_world fs) =
     ((- 1, Some err),
      \<lparr>trace = [EvOpenFile ''/dev/ptmx''], files = fs, pipe_data = [], pipe_closed = False,
       rand_reads = 0\<rparr>)"
  by (simp add: exec_defs)

lemma path_ptsname:
  "OpenFile_res env = Inr master \<Longrightarrow> Ptsname_res env = Inl err \<Longrightarrow>
   execCommand c args env (init_world fs) =
     ((- 1, Some err),
      \<lparr>trace = [EvOpenFile ''/dev/ptmx'', EvPtsname master], files = fs, pipe_data = [],
       pipe_closed = False, rand_reads = 0\<rparr>)"
  by (simp add: exec_defs)

lemma path_unlockpt:
  "OpenFile_res env = Inr master \<Longrightarrow> Ptsname_res env = Inr console \<Longrightarrow>
   Unlockpt_res env = Some err \<Longrightarrow>
   execCommand c args env (init_world fs) =
     ((- 1, Some err),
      \<lparr>trace = [EvOpenFile ''/dev/ptmx'', EvPtsname master, EvUnlockpt master], files = fs,
       pipe_data = [], pipe_closed = False, rand_reads = 0\<rparr>)"
  by (simp add: exec_defs)

lemma path_stdinpipe:
  "OpenFile_res env = Inr master \<Longrightarrow> Ptsname_res env = Inr console \<Longrightarrow>
   Unlockpt_res env = None \<Longrightarrow> StdinPipe_res env = Some err \<Longrightarrow>
   execCommand c args env (init_world fs) =
     ((- 1, Some err),
      \<lparr>trace = [EvOpenFile ''/dev/ptmx'', EvPtsname master, EvUnlockpt master, EvStdinPipe],
       files = fs, pipe_data = [], pipe_closed = False, rand_reads = 0\<rparr>)"
  by (simp add: exec_defs)

lemma path_start:
  "OpenFile_res env = Inr master \<Longrightarrow> Ptsname_res env = Inr console \<Longrightarrow>
   Unlockpt_res env = None \<Longrightarrow> StdinPipe_res env = None \<Longrightarrow> Start_res env = Inl err \<Longrightarrow>
   execCommand c args env (init_world fs) =
     ((- 1, Some err),
      \<lparr>trace = start_events master (createCommand c console args env), files = fs,
       pipe_data = [], pipe_closed = False, rand_reads = 0\<rparr>)"
  by (simp add: exec_defs path_defs)

lemma path_writefile:
  "started env master console pid \<Longrightarrow> WriteFile_res env = WriteFileFailed err left \<Longrightarrow>
   execCommand c args env (init_world fs) =
     ((- 1, Some err),
      \<lparr>trace = start_events master (createCommand c console args env) @
         [EvWriteFile ''.nspid'' (Sprint pid) 429, EvKill pid],
       files = fs(''.nspid'' := left), pipe_data = [], pipe_closed = False, rand_reads = 0\<rparr>)"
  by (simp add: exec_defs path_defs)

lemma path_apply:
  "started env master console pid \<Longrightarrow> WriteFile_res env = WriteFileOk \<Longrightarrow>
   Cgroups c = Some cg \<Longrightarrow> Apply_res env cg pid = Some err \<Longrightarrow>
   execCommand c args env (init_world fs) =
     ((- 1, Some err),
      \<lparr>trace = start_events master (createCommand c console args env) @
         [EvWriteFile ''.nspid'' (Sprint pid) 429, EvCgroupsApply cg pid, EvKill pid,
          EvRemove ''.nspid''],
       files = fs(''.nspid'' := None), pipe_data = [], pipe_closed = False, rand_reads = 0\<rparr>)"
  by (simp add: exec_defs path_defs)


lemma path_rand1:
  "started env master console pid \<Longrightarrow> limited c env pid \<Longrightarrow> Network c = Some net \<Longrightarrow>
   rand_res env 0 = Inl err \<Longrightarrow>
   execCommand c args env (init_world fs) =
     ((- 1, Some err),
      \<lparr>trace = setup_events c master (createCommand c console args env) pid @
         [EvGenerateRandomName ''dock'' 4, EvRemove ''.nspid''],
       files = fs(''.nspid'' := None), pipe_data = [], pipe_closed = False, rand_reads = 1\<rparr>)"
  by (cases "Cgroups c") (simp_all add: exec_defs path_defs)

lemma path_rand2:
  "started env master console pid \<Longrightarrow> limited c env pid \<Longrightarrow> Network c = Some net \<Longrightarrow>
   rand_res env 0 = Inr r1 \<Longrightarrow> rand_res env (Suc 0) = Inl err \<Longrightarrow>
   execCommand c args env (init_world fs) =
     ((- 1, Some err),
      \<lparr>trace = setup_events c master (createCommand c console args env) pid @
         [EvGenerateRandomName ''dock'' 4, EvGenerateRandomName ''dock'' 4, EvRemove ''.nspid''],
       files = fs(''.nspid'' := None), pipe_data = [], pipe_closed = False, rand_reads = 2\<rparr>)"
  by (cases "Cgroups c") (simp_all add: exec_defs path_defs)

lemma path_createveth:
  "started env master console pid \<Longrightarrow> limited c env pid \<Longrightarrow> Network c = Some net \<Longrightarrow>
   named env name1 name2 \<Longrightarrow> CreateVethPair_res env name1 name2 = Some err \<Longrightarrow>
   execCommand c args env (init_world fs) =
     ((- 1, Some err),
      \<lparr>trace = setup_events c master (createCommand c console args env) pid @
         take 3 (veth_events (Bridge net) pid name1 name2) @ [EvRemove ''.nspid''],
       files = fs(''.nspid'' := None), pipe_data = [], pipe_closed = False, rand_reads = 2\<rparr>)"
  by (cases "Cgroups c")
    (auto simp add: exec_defs path_defs split: sum.splits)

lemma path_setmaster:
  "started env master console pid \<Longrightarrow> limited c env pid \<Longrightarrow> Network c = Some net \<Longrightarrow>
   named env name1 name2 \<Longrightarrow> CreateVethPair_res env name1 name2 = None \<Longrightarrow>
   SetInterfaceMaster_res env name1 (Bridge net) = Some err \<Longrightarrow>
   execCommand c args env (init_world fs) =
     ((- 1, Some err),
      \<lparr>trace = setup_events c master (createCommand c console args env) pid @
         take 4 (veth_events (Bridge net) pid name1 name2) @ [EvRemove ''.nspid''],
       files = fs(''.nspid'' := None), pipe_data = [], pipe_closed = False, rand_reads = 2\<rparr>)"
  by (cases "Cgroups c")
    (auto simp add: exec_defs path_defs split: sum.splits)

lemma path_interfaceup:
  "started env master console pid \<Longrightarrow> limited c env pid \<Longrightarrow> Network c = Some net \<Longrightarrow>
   named env name1 name2 \<Longrightarrow> CreateVethPair_res env name1 name2 = None \<Longrightarrow>
   SetInterfaceMaster_res env name1 (Bridge net) = None \<Longrightarrow>
   InterfaceUp_res env name1 = Some err \<Longrightarrow>
   execCommand c args env (init_world fs) =
     ((- 1, Some err),
      \<lparr>trace = setup_events c master (createCommand c console args env) pid @
         take 5 (veth_events (Bridge net) pid name1 name2) @ [EvRemove ''.nspid''],
       files = fs(''.nspid'' := None), pipe_data = [], pipe_closed = False, rand_reads = 2\<rparr>)"
  by (cases "Cgroups c")
    (auto simp add: exec_defs path_defs split: sum.splits)

lemma path_setns:
  "started env master console pid \<Longrightarrow> limited c env pid \<Longrightarrow> Network c = Some net \<Longrightarrow>
   named env name1 name2 \<Longrightarrow> CreateVethPair_res env name1 name2 = None \<Longrightarrow>
   SetInterfaceMaster_res env name1 (Bridge net) = None \<Longrightarrow>
   InterfaceUp_res env name1 = None \<Longrightarrow>
   SetInterfaceInNamespacePid_res env name2 pid = Some err \<Longrightarrow>
   execCommand c args env (init_world fs) =
     ((- 1, Some err),
      \<lparr>trace = setup_events c master (createCommand c console args env) pid @
         veth_events (Bridge net) pid name1 name2 @ [EvRemove ''.nspid''],
       files = fs(''.nspid'' := None), pipe_data = [], pipe_closed = False, rand_reads = 2\<rparr>)"
  by (cases "Cgroups c")
    (auto simp add: exec_defs path_defs split: sum.splits)

lemma path_getwinsize:
  "started env master console pid \<Longrightarrow> limited c env pid \<Longrightarrow> synced c env pid name1 name2 \<Longrightarrow>
   GetWinsize_res env = Inl err \<Longrightarrow>
   execCommand c args env (init_world fs) =
     ((- 1, Some err),
      \<lparr>trace = setup_events c master (createCommand c console args env) pid @
         sync_events c pid name1 name2 @
         [EvGo MasterToStdout, EvGo StdinToMaster, EvGetWinsize, EvKill pid,
          EvRemove ''.nspid''],
       files = fs(''.nspid'' := None), pipe_data = sync_pipe c env name2, pipe_closed = True,
       rand_reads = sync_reads c\<rparr>)"
  by (cases "Cgroups c"; cases "Network c"; cases "Fprint_res env")
    (auto simp add: exec_defs path_defs split: sum.splits)

lemma path_setwinsize:
  "started env master console pid \<Longrightarrow> limited c env pid \<Longrightarrow> synced c env pid name1 name2 \<Longrightarrow>
   GetWinsize_res env = Inr ws \<Longrightarrow> SetWinsize_res env = Some err \<Longrightarrow>
   execCommand c args env (init_world fs) =
     ((- 1, Some err),
      \<lparr>trace = setup_events c master (createCommand c console args env) pid @
         sync_events c pid name1 name2 @ take 4 (window_events master ws) @
         [EvKill pid, EvRemove ''.nspid''],
       files = fs(''.nspid'' := None), pipe_data = sync_pipe c env name2, pipe_closed = True,
       rand_reads = sync_reads c\<rparr>)"
  by (cases "Cgroups c"; cases "Network c"; cases "Fprint_res env")
    (auto simp add: exec_defs path_defs split: sum.splits)

lemma path_setraw:
  "started env master console pid \<Longrightarrow> limited c env pid \<Longrightarrow> synced c env pid name1 name2 \<Longrightarrow>
   GetWinsize_res env = Inr ws \<Longrightarrow> SetWinsize_res env = None \<Longrightarrow>
   SetRawTerminal_res env = Inl err \<Longrightarrow>
   execCommand c args env (init_world fs) =
     ((- 1, Some err),
      \<lparr>trace = setup_events c master (createCommand c console args env) pid @
         sync_events c pid name1 name2 @ window_events master ws @
         [EvKill pid, EvRemove ''.nspid''],
       files = fs(''.nspid'' := None), pipe_data = sync_pipe c env name2, pipe_closed = True,
       rand_reads = sync_reads c\<rparr>)"
  by (cases "Cgroups c"; cases "Network c"; cases "Fprint_res env")
    (auto simp add: exec_defs path_defs split: sum.splits)

lemma path_wait_failed:
  "started env master console pid \<Longrightarrow> limited c env pid \<Longrightarrow> synced c env pid name1 name2 \<Longrightarrow>
   GetWinsize_res env = Inr ws \<Longrightarrow> SetWinsize_res env = None \<Longrightarrow>
   SetRawTerminal_res env = Inr state \<Longrightarrow> Wait_res env = Some err \<Longrightarrow> \<not> is_ExitError err \<Longrightarrow>
   execCommand c args env (init_world fs) =
     ((- 1, Some err),
      \<lparr>trace = setup_events c master (createCommand c console args env) pid @
         sync_events c pid name1 name2 @ window_events master ws @
         [EvWait, EvRestoreTerminal state, EvRemove ''.nspid''],
       files = fs(''.nspid'' := None), pipe_data = sync_pipe c env name2, pipe_closed = True,
       rand_reads = sync_reads c\<rparr>)"
  by (cases "Cgroups c"; cases "Network c"; cases "Fprint_res env")
    (auto simp add: exec_defs path_defs split: sum.splits)

lemma path_exited:
  "started env master console pid \<Longrightarrow> limited c env pid \<Longrightarrow> synced c env pid name1 name2 \<Longrightarrow>
   GetWinsize_res env = Inr ws \<Longrightarrow> SetWinsize_res env = None \<Longrightarrow>
   SetRawTerminal_res env = Inr state \<Longrightarrow>
   Wait_res env = None \<or> (\<exists>err. Wait_res env = Some err \<and> is_ExitError err) \<Longrightarrow>
   execCommand c args env (init_world fs) =
     ((ExitStatus (WaitStatus_res env), None),
      \<lparr>trace = setup_events c master (createCommand c console args env) pid @
         sync_events c pid name1 name2 @ window_events master ws @
         [EvWait, EvRestoreTerminal state, EvRemove ''.nspid''],
       files = fs(''.nspid'' := None), pipe_data = sync_pipe c env name2, pipe_closed = True,
       rand_reads = sync_reads c\<rparr>)"
  by (cases "Cgroups c"; cases "Network c"; cases "Fprint_res env")
    (auto simp add: exec_defs path_defs split: sum.splits)

subsection \<open>Which path a launch takes\<close>

lemma started_cases [case_names open_failed ptsname_failed unlockpt_failed stdinpipe_failed
    start_failed started]:
  obtains err where "OpenFile_res env = Inl err"
  | master err where "OpenFile_res env = Inr master" "Ptsname_res env = Inl err"
  | master console err where "OpenFile_res env = Inr master" "Ptsname_res env = Inr console"
      "Unlockpt_res env = Some err"
  | master console err where "OpenFile_res env = Inr master" "Ptsname_res env = Inr console"
      "Unlockpt_res env = None" "StdinPipe_res env = Some err"
  | master console err where "OpenFile_res env = Inr master" "Ptsname_res env = Inr console"
      "Unlockpt_res env = None" "StdinPipe_res env = None" "Start_res env = Inl err"
  | master console pid where "started env master console pid"
  unfolding started_def
  by (cases "OpenFile_res env"; cases "Ptsname_res env"; cases "Unlockpt_res env";
      cases "StdinPipe_res env"; cases "Start_res env") auto

lemma limited_cases [case_names writefile_failed apply_failed limited]:
  obtains err left where "WriteFile_res env = WriteFileFailed err left"
  | cg err where "WriteFile_res env = WriteFileOk" "Cgroups c = Some cg"
      "Apply_res env cg pid = Some err"
  | "limited c env pid"
  unfolding limited_def
  by (cases "WriteFile_res env"; cases "Cgroups c") auto

lemma named_cases [case_names rand1_failed rand2_failed named]:
  obtains err where "rand_res env 0 = Inl err"
  | r1 err where "rand_res env 0 = Inr r1" "rand_res env (Suc 0) = Inl err"
  | name1 name2 where "named env name1 name2"
  unfolding named_def
  by (cases "rand_res env 0"; cases "rand_res env (Suc 0)") auto

lemma synced_cases [case_names rand1_failed rand2_failed createveth_failed setmaster_failed
    interfaceup_failed setns_failed synced]:
  obtains net err where "Network c = Some net" "rand_res env 0 = Inl err"
  | net r1 err where "Network c = Some net" "rand_res env 0 = Inr r1"
      "rand_res env (Suc 0) = Inl err"
  | net name1 name2 err where "Network c = Some net" "named env name1 name2"
      "CreateVethPair_res env name1 name2 = Some err"
  | net name1 name2 err where "Network c = Some net" "named env name1 name2"
      "CreateVethPair_res env name1 name2 = None"
      "SetInterfaceMaster_res env name1 (Bridge net) = Some err"
  | net name1 name2 err where "Network c = Some net" "named env name1 name2"
      "CreateVethPair_res env name1 name2 = None"
      "SetInterfaceMaster_res env name1 (Bridge net) = None"
      "InterfaceUp_res env name1 = Some err"
  | net name1 name2 err where "Network c = Some net" "named env name1 name2"
      "CreateVethPair_res env name1 name2 = None"
      "SetInterfaceMaster_res env name1 (Bridge net) = None"
      "InterfaceUp_res env name1 = None"
      "SetInterfaceInNamespacePid_res env name2 pid = Some err"
  | name1 name2 where "synced c env pid name1 name2"
proof (cases "Network c")
  case None
  then have "synced c env pid [] []" by (simp add: synced_def)
  then show ?thesis by (rule that(7))
next
  case (Some net)
  show ?thesis
  proof (cases rule: named_cases [where env = env])
    case (rand1_failed err)
    with Some show ?thesis by (rule that(1))
  next
    case (rand2_failed r1 err)
    with Some show ?thesis by (rule that(2))
  next
    case (named name1 name2)
    show ?thesis
    proof (cases "CreateVethPair_res env name1 name2")
      case a: (Some err)
      from Some named a show ?thesis by (rule that(3))
    next
      case a: None
      show ?thesis
      proof (cases "SetInterfaceMaster_res env name1 (Bridge net)")
        case b: (Some err)
        from Some named a b show ?thesis by (rule that(4))
      next
        case b: None
        show ?thesis
        proof (cases "InterfaceUp_res env name1")
          case d: (Some err)
          from Some named a b d show ?thesis by (rule that(5))
        next
          case d: None
          show ?thesis
          proof (cases "SetInterfaceInNamespacePid_res env name2 pid")
            case e: (Some err)
            from Some named a b d e show ?thesis by (rule that(6))
          next
            case e: None
            from Some named a b d e have "synced c env pid name1 name2"
              by (simp add: synced_def)
            then show ?thesis by (rule that(7))
          qed
        qed
      qed
    qed
  qed
qed

lemma waited_cases [case_names getwinsize_failed setwinsize_failed setraw_failed wait_failed
    exited]:
  obtains err where "GetWinsize_res env = Inl err"
  | ws err where "GetWinsize_res env = Inr ws" "SetWinsize_res env = Some err"
  | ws err where "GetWinsize_res env = Inr ws" "SetWinsize_res env = None"
      "SetRawTerminal_res env = Inl err"
  | ws state err where "GetWinsize_res env = Inr ws" "SetWinsize_res env = None"
      "SetRawTerminal_res env = Inr state" "Wait_res env = Some err" "\<not> is_ExitError err"
  | ws state where "GetWinsize_res env = Inr ws" "SetWinsize_res env = None"
      "SetRawTerminal_res env = Inr state"
      "Wait_res env = None \<or> (\<exists>err. Wait_res env = Some err \<and> is_ExitError err)"
  by (cases "GetWinsize_res env"; cases "SetWinsize_res env"; cases "SetRawTerminal_res env";
      cases "Wait_res env") (auto, blast)

subsection \<open>The path table\<close>

lemma execCommand_paths:
  fixes c :: Container and args :: "string list" and env :: env and fs :: "string \<Rightarrow> fsfile option"
  defines "run \<equiv> execCommand c args env (init_world fs)"
  obtains
    (open_failed) err where
      "OpenFile_res env = Inl err"
      "run =
         ((- 1, Some err),
          \<lparr>trace = [EvOpenFile ''/dev/ptmx''], files = fs, pipe_data = [], pipe_closed = False,
           rand_reads = 0\<rparr>)"
  |
    (ptsname_failed) master err where
      "OpenFile_res env = Inr master"
      "Ptsname_res env = Inl err"
      "run =
         ((- 1, Some err),
          \<lparr>trace = [EvOpenFile ''/dev/ptmx'', EvPtsname master], files = fs, pipe_data = [],
           pipe_closed = False, rand_reads = 0\<rparr>)"
  |
    (unlockpt_failed) master console err where
      "OpenFile_res env = Inr master"
      "Ptsname_res env = Inr console"
      "Unlockpt_res env = Some err"
      "run =
         ((- 1, Some err),
          \<lparr>trace = [EvOpenFile ''/dev/ptmx'', EvPtsname master, EvUnlockpt master], files = fs,
           pipe_data = [], pipe_closed = False, rand_reads = 0\<rparr>)"
  |
    (stdinpipe_failed) master console err where
      "OpenFile_res env = Inr master"
      "Ptsname_res env = Inr console"
      "Unlockpt_res env = None"
      "StdinPipe_res env = Some err"
      "run =
         ((- 1, Some err),
          \<lparr>trace = [EvOpenFile ''/dev/ptmx'', EvPtsname master, EvUnlockpt master, EvStdinPipe],
           files = fs, pipe_data = [], pipe_closed = False, rand_reads = 0\<rparr>)"
  |
    (start_failed) master console err where
      "OpenFile_res env = Inr master"
      "Ptsname_res env = Inr console"
      "Unlockpt_res env = None"
      "StdinPipe_res env = None"
      "Start_res env = Inl err"
      "run =
         ((- 1, Some err),
          \<lparr>trace = start_events master (createCommand c console args env), files = fs,
           pipe_data = [], pipe_closed = False, rand_reads = 0\<rparr>)"
  |
    (writefile_failed) master console pid err left where
      "started env master console pid"
      "WriteFile_res env = WriteFileFailed err left"
      "run =
         ((- 1, Some err),
          \<lparr>trace = start_events master (createCommand c console args env) @
             [EvWriteFile ''.nspid'' (Sprint pid) 429, EvKill pid],
           files = fs(''.nspid'' := left), pipe_data = [], pipe_closed = False, rand_reads = 0\<rparr>)"
  |
    (apply_failed) master console pid cg err where
      "started env master console pid"
      "WriteFile_res env = WriteFileOk"
      "Cgroups c = Some cg"
      "Apply_res env cg pid = Some err"
      "run =
         ((- 1, Some err),
          \<lparr>trace = start_events master (createCommand c console args env) @
             [EvWriteFile ''.nspid'' (Sprint pid) 429, EvCgroupsApply cg pid, EvKill pid,
              EvRemove ''.nspid''],
           files = fs(''.nspid'' := None), pipe_data = [], pipe_closed = False, rand_reads = 0\<rparr>)"
  |
    (rand1_failed) master console pid net err where
      "started env master console pid"
      "limited c env pid"
      "Network c = Some net"
      "rand_res env 0 = Inl err"
      "run =
         ((- 1, Some err),
          \<lparr>trace = setup_events c master (createCommand c console args env) pid @
             [EvGenerateRandomName ''dock'' 4, EvRemove ''.nspid''],
           files = fs(''.nspid'' := None), pipe_data = [], pipe_closed = False, rand_reads = 1\<rparr>)"
  |
    (rand2_failed) master console pid net r1 err where
      "started env master console pid"
      "limited c env pid"
      "Network c = Some net"
      "rand_res env 0 = Inr r1"
      "rand_res env (Suc 0) = Inl err"
      "run =
         ((- 1, Some err),
          \<lparr>trace = setup_events c master (createCommand c console args env) pid @
             [EvGenerateRandomName ''dock'' 4, EvGenerateRandomName ''dock'' 4, EvRemove ''.nspid''],
           files = fs(''.nspid'' := None), pipe_data = [], pipe_closed = False, rand_reads = 2\<rparr>)"
  |
    (createveth_failed) master console pid net name1 name2 err where
      "started env master console pid"
      "limited c env pid"
      "Network c = Some net"
      "named env name1 name2"
      "CreateVethPair_res env name1 name2 = Some err"
      "run =
         ((- 1, Some err),
          \<lparr>trace = setup_events c master (createCommand c console args env) pid @
             take 3 (veth_events (Bridge net) pid name1 name2) @ [EvRemove ''.nspid''],
           files = fs(''.nspid'' := None), pipe_data = [], pipe_closed = False, rand_reads = 2\<rparr>)"
  |
    (setmaster_failed) master console pid net name1 name2 err where
      "started env master console pid"
      "limited c env pid"
      "Network c = Some net"
      "named env name1 name2"
      "CreateVethPair_res env name1 name2 = None"
      "SetInterfaceMaster_res env name1 (Bridge net) = Some err"
      "run =
         ((- 1, Some err),
          \<lparr>trace = setup_events c master (createCommand c console args env) pid @
             take 4 (veth_events (Bridge net) pid name1 name2) @ [EvRemove ''.nspid''],
           files = fs(''.nspid'' := None), pipe_data = [], pipe_closed = False, rand_reads = 2\<rparr>)"
  |
    (interfaceup_failed) master console pid net name1 name2 err where
      "started env master console pid"
      "limited c env pid"
      "Network c = Some net"
      "named env name1 name2"
      "CreateVethPair_res env name1 name2 = None"
      "SetInterfaceMaster_res env name1 (Bridge net) = None"
      "InterfaceUp_res env name1 = Some err"
      "run =
         ((- 1, Some err),
          \<lparr>trace = setup_events c master (createCommand c console args env) pid @
             take 5 (veth_events (Bridge net) pid name1 name2) @ [EvRemove ''.nspid''],
           files = fs(''.nspid'' := None), pipe_data = [], pipe_closed = False, rand_reads = 2\<rparr>)"
  |
    (setns_failed) master console pid net name1 name2 err where
      "started env master console pid"
      "limited c env pid"
      "Network c = Some net"
      "named env name1 name2"
      "CreateVethPair_res env name1 name2 = None"
      "SetInterfaceMaster_res env name1 (Bridge net) = None"
      "InterfaceUp_res env name1 = None"
      "SetInterfaceInNamespacePid_res env name2 pid = Some err"
      "run =
         ((- 1, Some err),
          \<lparr>trace = setup_events c master (createCommand c console args env) pid @
             veth_events (Bridge net) pid name1 name2 @ [EvRemove ''.nspid''],
           files = fs(''.nspid'' := None), pipe_data = [], pipe_closed = False, rand_reads = 2\<rparr>)"
  |
    (getwinsize_failed) master console pid name1 name2 err where
      "started env master console pid"
      "limited c env pid"
      "synced c env pid name1 name2"
      "GetWinsize_res env = Inl err"
      "run =
         ((- 1, Some err),
          \<lparr>trace = setup_events c master (createCommand c console args env) pid @
             sync_events c pid name1 name2 @
             [EvGo MasterToStdout, EvGo StdinToMaster, EvGetWinsize, EvKill pid,
              EvRemove ''.nspid''],
           files = fs(''.nspid'' := None), pipe_data = sync_pipe c env name2, pipe_closed = True,
           rand_reads = sync_reads c\<rparr>)"
  |
    (setwinsize_failed) master console pid name1 name2 ws err where
      "started env master console pid"
      "limited c env pid"
      "synced c env pid name1 name2"
      "GetWinsize_res env = Inr ws"
      "SetWinsize_res env = Some err"
      "run =
         ((- 1, Some err),
          \<lparr>trace = setup_events c master (createCommand c console args env) pid @
             sync_events c pid name1 name2 @ take 4 (window_events master ws) @
             [EvKill pid, EvRemove ''.nspid''],
           files = fs(''.nspid'' := None), pipe_data = sync_pipe c env name2, pipe_closed = True,
           rand_reads = sync_reads c\<rparr>)"
  |
    (setraw_failed) master console pid name1 name2 ws err where
      "started env master console pid"
      "limited c env pid"
      "synced c env pid name1 name2"
      "GetWinsize_res env = Inr ws"
      "SetWinsize_res env = None"
      "SetRawTerminal_res env = Inl err"
      "run =
         ((- 1, Some err),
          \<lparr>trace = setup_events c master (createCommand c console args env) pid @
             sync_events c pid name1 name2 @ window_events master ws @
             [EvKill pid, EvRemove ''.nspid''],
           files = fs(''.nspid'' := None), pipe_data = sync_pipe c env name2, pipe_closed = True,
           rand_reads = sync_reads c\<rparr>)"
  |
    (wait_failed) master console pid name1 name2 ws state err where
      "started env master console pid"
      "limited c env pid"
      "synced c env pid name1 name2"
      "GetWinsize_res env = Inr ws"
      "SetWinsize_res env = None"
      "SetRawTerminal_res env = Inr state"
      "Wait_res env = Some err"
      "\<not> is_ExitError err"
      "run =
         ((- 1, Some err),
          \<lparr>trace = setup_events c master (createCommand c console args env) pid @
             sync_events c pid name1 name2 @ window_events master ws @
             [EvWait, EvRestoreTerminal state, EvRemove ''.nspid''],
           files = fs(''.nspid'' := None), pipe_data = sync_pipe c env name2, pipe_closed = True,
           rand_reads = sync_reads c\<rparr>)"
  |
    (exited) master console pid name1 name2 ws state where
      "started env master console pid"
      "limited c env pid"
      "synced c env pid name1 name2"
      "GetWinsize_res env = Inr ws"
      "SetWinsize_res env = None"
      "SetRawTerminal_res env = Inr state"
      "Wait_res env = None \<or> (\<exists>err. Wait_res env = Some err \<and> is_ExitError err)"
      "run =
         ((ExitStatus (WaitStatus_res env), None),
          \<lparr>trace = setup_events c master (createCommand c console args env) pid @
             sync_events c pid name1 name2 @ window_events master ws @
             [EvWait, EvRestoreTerminal state, EvRemove ''.nspid''],
           files = fs(''.nspid'' := None), pipe_data = sync_pipe c env name2, pipe_closed = True,
           rand_reads = sync_reads c\<rparr>)"
proof (cases rule: started_cases [where env = env])
  case a: (open_failed err)
  show ?thesis
    by (rule that(1) [OF a]) (simp add: run_def path_open [OF a])
next
  case a: (ptsname_failed master err)
  show ?thesis
    by (rule that(2) [OF a]) (simp add: run_def path_ptsname [OF a])
next
  case a: (unlockpt_failed master console err)
  show ?thesis
    by (rule that(3) [OF a]) (simp add: run_def path_unlockpt [OF a])
next
  case a: (stdinpipe_failed master console err)
  show ?thesis
    by (rule that(4) [OF a]) (simp add: run_def path_stdinpipe [OF a])
next
  case a: (start_failed master console err)
  show ?thesis
    by (rule that(5) [OF a]) (simp add: run_def path_start [OF a])
next
  case s: (started master console pid)
  show ?thesis
  proof (cases rule: limited_cases [where env = env and c = c and pid = pid])
    case a: (writefile_failed err left)
    show ?thesis
      by (rule that(6) [OF s a]) (simp add: run_def path_writefile [OF s a])
  next
    case a: (apply_failed cg err)
    show ?thesis
      by (rule that(7) [OF s a]) (simp add: run_def path_apply [OF s a])
  next
    case l: limited
    show ?thesis
    proof (cases rule: synced_cases [where env = env and c = c and pid = pid])
      case a: (rand1_failed net err)
      show ?thesis
        by (rule that(8) [OF s l a]) (simp add: run_def path_rand1 [OF s l a])
    next
      case a: (rand2_failed net r1 err)
      show ?thesis
        by (rule that(9) [OF s l a]) (simp add: run_def path_rand2 [OF s l a])
    next
      case a: (createveth_failed net name1 name2 err)
      show ?thesis
        by (rule that(10) [OF s l a]) (simp add: run_def path_createveth [OF s l a])
    next
      case a: (setmaster_failed net name1 name2 err)
      show ?thesis
        by (rule that(11) [OF s l a]) (simp add: run_def path_setmaster [OF s l a])
    next
      case a: (interfaceup_failed net name1 name2 err)
      show ?thesis
        by (rule that(12) [OF s l a]) (simp add: run_def path_interfaceup [OF s l a])
    next
      case a: (setns_failed net name1 name2 err)
      show ?thesis
        by (rule that(13) [OF s l a]) (simp add: run_def path_setns [OF s l a])
    next
      case y: (synced name1 name2)
      show ?thesis
      proof (cases rule: waited_cases [where env = env])
        case a: (getwinsize_failed err)
        show ?thesis
          by (rule that(14) [OF s l y a]) (simp add: run_def path_getwinsize [OF s l y a])
      next
        case a: (setwinsize_failed ws err)
        show ?thesis
          by (rule that(15) [OF s l y a]) (simp add: run_def path_setwinsize [OF s l y a])
      next
        case a: (setraw_failed ws err)
        show ?thesis
          by (rule that(16) [OF s l y a]) (simp add: run_def path_setraw [OF s l y a])
      next
        case a: (wait_failed ws state err)
        show ?thesis
          by (rule that(17) [OF s l y a]) (simp add: run_def path_wait_failed [OF s l y a])
      next
        case a: (exited ws state)
        show ?thesis
          by (rule that(18) [OF s l y a]) (simp add: run_def path_exited [OF s l y a])
      qed
    qed
  qed
qed

subsection \<open>Traces cut at an event\<close>

lemma guarded_by_split:
  "guarded_by P Q tr \<Longrightarrow> tr = pre @ e # post \<Longrightarrow> Q e \<Longrightarrow> \<exists>x \<in> set pre. P x"
proof (induction tr arbitrary: pre)
  case Nil
  then show ?case by simp
next
  case (Cons x xs)
  show ?case
  proof (cases pre)
    case Nil
    with Cons.prems show ?thesis by auto
  next
    case (Cons y ys)
    with Cons.prems Cons.IH [of ys] show ?thesis by auto
  qed
qed

lemma cut_at_first: "x \<notin> set pre \<Longrightarrow> cut_at x (pre @ x # post) = Some (pre, post)"
  by (induction pre) auto

lemma cut_at_once:
  assumes "tr = pre @ x # post" and "count_list tr x \<le> 1"
  shows "cut_at x tr = Some (pre, post)"
proof -
  from assms have "count_list pre x = 0" by simp
  then have "x \<notin> set pre" by (simp add: count_list_0_iff)
  with assms(1) show ?thesis by (simp add: cut_at_first)
qed

subsection \<open>Events that occur at most once\<close>

lemmas run_simps = path_defs createCommand_def

lemma pair_created_once:
  "count_list (trace (snd (execCommand c args env (init_world fs)))) (EvCreateVethPair n1 n2) \<le> 1"
  by (rule execCommand_paths [of env c args fs])
    (simp_all add: run_simps split: option.splits)

lemma closed_once:
  "count_list (trace (snd (execCommand c args env (init_world fs)))) EvPipeClose \<le> 1"
  by (rule execCommand_paths [of env c args fs])
    (simp_all add: run_simps split: option.splits)

lemma started_once:
  "count_list (trace (snd (execCommand c args env (init_world fs)))) (EvStart cmd) \<le> 1"
  by (rule execCommand_paths [of env c args fs])
    (simp_all add: path_defs split: option.splits)

lemma written_once:
  "count_list (trace (snd (execCommand c args env (init_world fs)))) (EvPipeWrite name) \<le> 1"
  by (rule execCommand_paths [of env c args fs])
    (simp_all add: run_simps split: option.splits)

lemma close_follows_write:
  assumes "trace (snd (execCommand c args env (init_world fs))) = pre @ EvPipeWrite name # post"
  shows "\<exists>rest. post = EvPipeClose # rest"
proof -
  have "cut_at (EvPipeWrite name) (trace (snd (execCommand c args env (init_world fs)))) =
      Some (pre, post)"
    using assms written_once by (rule cut_at_once)
  then show ?thesis
    by (rule_tac execCommand_paths [of env c args fs])
      (auto simp add: run_simps split: option.splits if_splits)
qed

subsection \<open>Decimal text and file modes\<close>

lemma digit_facts:
  assumes "d < 10"
  shows "digit_value (digit d) = d" and "is_digit (digit d)" and "digit d \<noteq> CHR ''-''"
proof -
  from assms have "d \<in> {0, 1, 2, 3, 4, 5, 6, 7, 8, 9}" by auto
  then show "digit_value (digit d) = d" and "is_digit (digit d)" and "digit d \<noteq> CHR ''-''"
    by (auto simp add: digit_def digit_value_def is_digit_def)
qed

lemma decimal_value_snoc:
  "decimal_value (s @ [ch]) = 10 * decimal_value s + digit_value ch"
  by (simp add: decimal_value_def)

lemma decimal_value_digits: "decimal_value (digits n) = n"
proof (induction n rule: digits.induct)
  case (1 n)
  show ?case
  proof (cases "n < 10")
    case True
    then show ?thesis
      by (simp add: digits.simps [of n] decimal_value_def digit_facts)
  next
    case False
    with 1 show ?thesis
      by (simp add: digits.simps [of n] decimal_value_snoc digit_facts)
  qed
qed

lemma digits_are_digits: "list_all is_digit (digits n)"
proof (induction n rule: digits.induct)
  case (1 n)
  then show ?case
    by (cases "n < 10") (simp_all add: digits.simps [of n] digit_facts)
qed

lemma digits_not_empty: "digits n \<noteq> []"
  by (simp add: digits.simps [of n])

lemma decimal_int_Sprint: "decimal_int (Sprint i) = i"
proof (cases "i < 0")
  case True
  then show ?thesis
    by (simp add: Sprint_def decimal_int_def decimal_value_digits)
next
  case False
  obtain ch ds where ds: "digits (nat i) = ch # ds"
    using digits_not_empty [of "nat i"] by (cases "digits (nat i)") auto
  with digits_are_digits [of "nat i"] have "is_digit ch" by simp
  then have "ch \<noteq> CHR ''-''" by (auto simp add: is_digit_def)
  with False ds decimal_value_digits [of "nat i"] show ?thesis
    by (simp add: Sprint_def decimal_int_def)
qed

lemma Sprint_digits: "0 \<le> i \<Longrightarrow> list_all is_digit (Sprint i)"
  by (simp add: Sprint_def digits_are_digits)

lemma mode_0655:
  "allows 429 S_IRUSR" "allows 429 S_IWUSR" "allows 429 S_IRGRP" "allows 429 S_IROTH"
  by (simp_all add: allows_def S_IRUSR_def S_IWUSR_def S_IRGRP_def S_IROTH_def)

lemma writePidFile_ok:
  "WriteFile_res env = WriteFileOk \<Longrightarrow>
   files (snd (writePidFile pid env w)) ''.nspid'' =
     Some \<lparr>content = Sprint pid,
           perm = (case files w ''.nspid'' of
                     Some old \<Rightarrow> perm old
                   | None \<Rightarrow> 429 AND NOT (Umask env))\<rparr>"
  by (simp add: writePidFile_def WriteFile_def emit_def Let_def)

lemma mode_0600:
  "(429 :: FileMode) AND NOT 63 = 384" "allows 384 S_IRUSR" "allows 384 S_IWUSR"
  "\<not> allows 384 S_IRGRP" "\<not> allows 384 S_IROTH"
  by (simp_all add: allows_def S_IRUSR_def S_IWUSR_def S_IRGRP_def S_IROTH_def)

subsection \<open>The concrete launches, evaluated\<close>

lemmas concrete_defs = no_files_def container_full_def env_ok_def cmd_sh_def env_exit17_def
  env_wait_lost_def env_no_pty_def env_limit_fails_def env_veth_exists_def
  env_bridge_missing_def env_broken_pipe_def env_twin_def env_marker_fails_def
  env_signalled_def env_umask_077_def

lemma Sprint_4242: "Sprint 4242 = ''4242''"
  by (simp add: Sprint_def digits.simps digit_def)

lemma run_exit17:
  "execCommand container_full [''sh''] env_exit17 (init_world no_files) =
     ((17, None),
      \<lparr>trace =
         [EvOpenFile ''/dev/ptmx'', EvPtsname 3, EvUnlockpt 3, EvStdinPipe, EvStart cmd_sh,
          EvWriteFile ''.nspid'' ''4242'' 429, EvCgroupsApply (Cgroup ''docker'') 4242,
          EvGenerateRandomName ''dock'' 4, EvGenerateRandomName ''dock'' 4,
          EvCreateVethPair ''dock0a1b'' ''dock9f8e'',
          EvSetInterfaceMaster ''dock0a1b'' ''docker0'', EvInterfaceUp ''dock0a1b'',
          EvSetInterfaceInNamespacePid ''dock9f8e'' 4242, EvPipeWrite ''dock9f8e'',
          EvPipeClose, EvGo MasterToStdout, EvGo StdinToMaster, EvGetWinsize,
          EvSetWinsize 3 (Winsize 24 80), EvSetRawTerminal, EvWait, EvRestoreTerminal 1,
          EvRemove ''.nspid''],
       files = no_files, pipe_data = ''dock9f8e'', pipe_closed = True, rand_reads = 2\<rparr>)"
  by (simp add: exec_defs createCommand_def concrete_defs Sprint_4242 fun_eq_iff)

lemma run_signalled:
  "fst (execCommand container_full [''sh''] env_signalled (init_world no_files)) = (- 1, None)"
  "EvWait \<in> set (trace (snd (execCommand container_full [''sh''] env_signalled (init_world no_files))))"
  by (simp_all add: exec_defs createCommand_def concrete_defs Sprint_4242)

lemma run_wait_lost:
  "fst (execCommand container_full [''sh''] env_wait_lost (init_world no_files)) =
     (- 1, Some (Error ''wait: no child processes''))"
  "EvWait \<in> set (trace (snd (execCommand container_full [''sh''] env_wait_lost (init_world no_files))))"
  by (simp_all add: exec_defs createCommand_def concrete_defs Sprint_4242)

lemma run_no_pty:
  "execCommand container_full [''sh''] env_no_pty (init_world no_files) =
     ((- 1, Some (Error ''open /dev/ptmx: permission denied'')),
      \<lparr>trace = [EvOpenFile ''/dev/ptmx''], files = no_files, pipe_data = [],
       pipe_closed = False, rand_reads = 0\<rparr>)"
  by (simp add: exec_defs createCommand_def concrete_defs)

lemma run_limit_fails:
  "execCommand container_full [''sh''] env_limit_fails (init_world no_files) =
     ((- 1, Some (Error ''cgroup: permission denied'')),
      \<lparr>trace =
         [EvOpenFile ''/dev/ptmx'', EvPtsname 3, EvUnlockpt 3, EvStdinPipe, EvStart cmd_sh,
          EvWriteFile ''.nspid'' ''4242'' 429, EvCgroupsApply (Cgroup ''docker'') 4242,
          EvKill 4242, EvRemove ''.nspid''],
       files = no_files, pipe_data = [], pipe_closed = False, rand_reads = 0\<rparr>)"
  by (simp add: exec_defs createCommand_def concrete_defs Sprint_4242 fun_eq_iff)

lemma run_veth_exists:
  "execCommand container_full [''sh''] env_veth_exists (init_world no_files) =
     ((- 1, Some (Error ''file exists'')),
      \<lparr>trace =
         [EvOpenFile ''/dev/ptmx'', EvPtsname 3, EvUnlockpt 3, EvStdinPipe, EvStart cmd_sh,
          EvWriteFile ''.nspid'' ''4242'' 429, EvCgroupsApply (Cgroup ''docker'') 4242,
          EvGenerateRandomName ''dock'' 4, EvGenerateRandomName ''dock'' 4,
          EvCreateVethPair ''dock0a1b'' ''dock9f8e'', EvRemove ''.nspid''],
       files = no_files, pipe_data = [], pipe_closed = False, rand_reads = 2\<rparr>)"
  by (simp add: exec_defs createCommand_def concrete_defs Sprint_4242 fun_eq_iff)

lemma run_bridge_missing:
  "execCommand container_full [''sh''] env_bridge_missing (init_world no_files) =
     ((- 1, Some (Error ''no such device'')),
      \<lparr>trace =
         [EvOpenFile ''/dev/ptmx'', EvPtsname 3, EvUnlockpt 3, EvStdinPipe, EvStart cmd_sh,
          EvWriteFile ''.nspid'' ''4242'' 429, EvCgroupsApply (Cgroup ''docker'') 4242,
          EvGenerateRandomName ''dock'' 4, EvGenerateRandomName ''dock'' 4,
          EvCreateVethPair ''dock0a1b'' ''dock9f8e'',
          EvSetInterfaceMaster ''dock0a1b'' ''docker0'', EvRemove ''.nspid''],
       files = no_files, pipe_data = [], pipe_closed = False, rand_reads = 2\<rparr>)"
  by (simp add: exec_defs createCommand_def concrete_defs Sprint_4242 fun_eq_iff)

lemma run_broken_pipe:
  "execCommand container_full [''sh''] env_broken_pipe (init_world no_files) =
     ((0, None),
      \<lparr>trace =
         [EvOpenFile ''/dev/ptmx'', EvPtsname 3, EvUnlockpt 3, EvStdinPipe, EvStart cmd_sh,
          EvWriteFile ''.nspid'' ''4242'' 429, EvCgroupsApply (Cgroup ''docker'') 4242,
          EvGenerateRandomName ''dock'' 4, EvGenerateRandomName ''dock'' 4,
          EvCreateVethPair ''dock0a1b'' ''dock9f8e'',
          EvSetInterfaceMaster ''dock0a1b'' ''docker0'', EvInterfaceUp ''dock0a1b'',
          EvSetInterfaceInNamespacePid ''dock9f8e'' 4242, EvPipeWrite ''dock9f8e'',
          EvPipeClose, EvGo MasterToStdout, EvGo StdinToMaster, EvGetWinsize,
          EvSetWinsize 3 (Winsize 24 80), EvSetRawTerminal, EvWait, EvRestoreTerminal 1,
          EvRemove ''.nspid''],
       files = no_files, pipe_data = [], pipe_closed = True, rand_reads = 2\<rparr>)"
  by (simp add: exec_defs createCommand_def concrete_defs Sprint_4242 fun_eq_iff)

lemma run_marker_fails:
  "execCommand container_full [''sh''] env_marker_fails (init_world no_files) =
     ((- 1, Some (Error ''read-only file system'')),
      \<lparr>trace =
         [EvOpenFile ''/dev/ptmx'', EvPtsname 3, EvUnlockpt 3, EvStdinPipe, EvStart cmd_sh,
          EvWriteFile ''.nspid'' ''4242'' 429, EvKill 4242],
       files = no_files, pipe_data = [], pipe_closed = False, rand_reads = 0\<rparr>)"
  by (simp add: exec_defs createCommand_def concrete_defs Sprint_4242 fun_eq_iff)

section \<open>Properties of the launch\<close>

text \<open>
  Claim C1. Every setup step that fails after the child has been started (pid-marker
  write, resource-limit application, a network call, terminal attach) should be followed
  by a kill of the child before the error is returned. The launch below fails in
  \<open>network.SetInterfaceMaster\<close>: the child has been started, the error is returned with
  \<open>-1\<close>, and \<open>Process.Kill\<close> is never called (line 53 returns without the kill that
  lines 36, 45 and 66 make).
\<close>

theorem network_failure_leaves_child_running:
  "fst (execCommand container_full [''sh''] env_bridge_missing (init_world no_files)) =
     (- 1, Some (Error ''no such device'')) \<and>
   EvStart cmd_sh \<in>
     set (trace (snd (execCommand container_full [''sh''] env_bridge_missing (init_world no_files)))) \<and>
   EvKill 4242 \<notin>
     set (trace (snd (execCommand container_full [''sh''] env_bridge_missing (init_world no_files))))"
  by (simp add: run_bridge_missing)

text \<open>
  Claim C2. For every configuration with both resource limits and networking configured,
  the call that applies the resource limits to the child's pid happens strictly before
  any network namespace operation (veth creation, bridge attach, interface up, namespace
  migration): wherever the trace of a launch is cut at such an operation, the part before
  the cut contains the \<open>Cgroups.Apply\<close> call for the pid that \<open>Start\<close> returned.
\<close>

theorem limits_before_network:
  assumes cg: "Cgroups c = Some cg" and net: "Network c = Some net"
    and cut: "trace (snd (execCommand c args env (init_world fs))) = pre @ e # post"
    and op: "is_network_op e"
  shows "\<exists>pid. Start_res env = Inr pid \<and> EvCgroupsApply cg pid \<in> set pre"
proof -
  let ?applied = "\<lambda>x. \<exists>pid. Start_res env = Inr pid \<and> x = EvCgroupsApply cg pid"
  have "guarded_by ?applied is_network_op (trace (snd (execCommand c args env (init_world fs))))"
    by (rule execCommand_paths [of env c args fs]) (simp_all add: run_simps cg net)
  from guarded_by_split [OF this cut op] show ?thesis by auto
qed

theorem limits_before_network_witness:
  "Cgroups container_full = Some (Cgroup ''docker'') \<and>
   Network container_full = Some \<lparr>Bridge = ''docker0''\<rparr> \<and>
   trace (snd (execCommand container_full [''sh''] env_exit17 (init_world no_files))) =
     [EvOpenFile ''/dev/ptmx'', EvPtsname 3, EvUnlockpt 3, EvStdinPipe, EvStart cmd_sh,
      EvWriteFile ''.nspid'' ''4242'' 429, EvCgroupsApply (Cgroup ''docker'') 4242,
      EvGenerateRandomName ''dock'' 4, EvGenerateRandomName ''dock'' 4] @
     EvCreateVethPair ''dock0a1b'' ''dock9f8e'' #
     [EvSetInterfaceMaster ''dock0a1b'' ''docker0'', EvInterfaceUp ''dock0a1b'',
      EvSetInterfaceInNamespacePid ''dock9f8e'' 4242, EvPipeWrite ''dock9f8e'',
      EvPipeClose, EvGo MasterToStdout, EvGo StdinToMaster, EvGetWinsize,
      EvSetWinsize 3 (Winsize 24 80), EvSetRawTerminal, EvWait, EvRestoreTerminal 1,
      EvRemove ''.nspid''] \<and>
   is_network_op (EvCreateVethPair ''dock0a1b'' ''dock9f8e'') \<and>
   (\<exists>pid. Start_res env_exit17 = Inr pid \<and>
      EvCgroupsApply (Cgroup ''docker'') pid \<in>
        set [EvOpenFile ''/dev/ptmx'', EvPtsname 3, EvUnlockpt 3, EvStdinPipe, EvStart cmd_sh,
             EvWriteFile ''.nspid'' ''4242'' 429, EvCgroupsApply (Cgroup ''docker'') 4242,
             EvGenerateRandomName ''dock'' 4, EvGenerateRandomName ''dock'' 4])"
proof -
  have cg: "Cgroups container_full = Some (Cgroup ''docker'')"
    and net: "Network container_full = Some \<lparr>Bridge = ''docker0''\<rparr>"
    by (simp_all add: container_full_def)
  have cut: "trace (snd (execCommand container_full [''sh''] env_exit17 (init_world no_files))) =
     [EvOpenFile ''/dev/ptmx'', EvPtsname 3, EvUnlockpt 3, EvStdinPipe, EvStart cmd_sh,
      EvWriteFile ''.nspid'' ''4242'' 429, EvCgroupsApply (Cgroup ''docker'') 4242,
      EvGenerateRandomName ''dock'' 4, EvGenerateRandomName ''dock'' 4] @
     EvCreateVethPair ''dock0a1b'' ''dock9f8e'' #
     [EvSetInterfaceMaster ''dock0a1b'' ''docker0'', EvInterfaceUp ''dock0a1b'',
      EvSetInterfaceInNamespacePid ''dock9f8e'' 4242, EvPipeWrite ''dock9f8e'',
      EvPipeClose, EvGo MasterToStdout, EvGo StdinToMaster, EvGetWinsize,
      EvSetWinsize 3 (Winsize 24 80), EvSetRawTerminal, EvWait, EvRestoreTerminal 1,
      EvRemove ''.nspid'']"
    by (simp add: run_exit17)
  have op: "is_network_op (EvCreateVethPair ''dock0a1b'' ''dock9f8e'')"
    by simp
  from limits_before_network [OF cg net cut op] cg net cut op show ?thesis
    by blast
qed

text \<open>
  Claim C3, as the code has it. In every launch the control channel (the child's stdin
  pipe) is closed at most once, and nothing is written to it after the close. When
  networking is configured, the close comes directly after the one write of the
  container-side interface name, the name that has just been moved into the child's
  namespace. What the channel holds at the close is the whole name if that write
  succeeded, and only the bytes the write delivered if it failed: the result of the write
  is not looked at.
\<close>

theorem control_channel_discipline:
  "count_list (trace (snd (execCommand c args env (init_world fs)))) EvPipeClose \<le> 1 \<and>
   (\<forall>pre post. trace (snd (execCommand c args env (init_world fs))) = pre @ EvPipeClose # post \<longrightarrow>
      (\<forall>s. EvPipeWrite s \<notin> set post) \<and>
      (\<forall>net. Network c = Some net \<longrightarrow>
         (\<exists>front name pid.
            pre = front @ [EvSetInterfaceInNamespacePid name pid, EvPipeWrite name] \<and>
            (\<forall>s. EvPipeWrite s \<notin> set front) \<and>
            pipe_data (snd (execCommand c args env (init_world fs))) =
              (case Fprint_res env of WriteOk \<Rightarrow> name | WriteFailed n err \<Rightarrow> take n name))))"
proof -
  let ?w = "snd (execCommand c args env (init_world fs))"
  have at: "cut_at EvPipeClose (trace ?w) = Some (pre, post)"
    if "trace ?w = pre @ EvPipeClose # post" for pre post
    using that closed_once by (rule cut_at_once)
  have after: "\<forall>s. EvPipeWrite s \<notin> set post"
    if "trace ?w = pre @ EvPipeClose # post" for pre post
    using at [OF that]
    by (rule_tac execCommand_paths [of env c args fs])
      (auto simp add: run_simps split: option.splits if_splits)
  have before: "\<exists>front name pid.
      pre = front @ [EvSetInterfaceInNamespacePid name pid, EvPipeWrite name] \<and>
      (\<forall>s. EvPipeWrite s \<notin> set front) \<and>
      pipe_data ?w = (case Fprint_res env of WriteOk \<Rightarrow> name | WriteFailed n err \<Rightarrow> take n name)"
    if "trace ?w = pre @ EvPipeClose # post" and "Network c = Some net" for pre post net
    using at [OF that(1)] that(2)
    by (rule_tac execCommand_paths [of env c args fs])
      (auto simp add: run_simps split: option.splits if_splits)
  from closed_once after before show ?thesis
    by blast
qed

theorem control_channel_discipline_witness:
  "trace (snd (execCommand container_full [''sh''] env_exit17 (init_world no_files))) =
     [EvOpenFile ''/dev/ptmx'', EvPtsname 3, EvUnlockpt 3, EvStdinPipe, EvStart cmd_sh,
      EvWriteFile ''.nspid'' ''4242'' 429, EvCgroupsApply (Cgroup ''docker'') 4242,
      EvGenerateRandomName ''dock'' 4, EvGenerateRandomName ''dock'' 4,
      EvCreateVethPair ''dock0a1b'' ''dock9f8e'',
      EvSetInterfaceMaster ''dock0a1b'' ''docker0'', EvInterfaceUp ''dock0a1b'',
      EvSetInterfaceInNamespacePid ''dock9f8e'' 4242, EvPipeWrite ''dock9f8e''] @
     EvPipeClose #
     [EvGo MasterToStdout, EvGo StdinToMaster, EvGetWinsize, EvSetWinsize 3 (Winsize 24 80),
      EvSetRawTerminal, EvWait, EvRestoreTerminal 1, EvRemove ''.nspid''] \<and>
   Network container_full = Some \<lparr>Bridge = ''docker0''\<rparr> \<and>
   Fprint_res env_exit17 = WriteOk \<and>
   pipe_data (snd (execCommand container_full [''sh''] env_exit17 (init_world no_files))) =
     ''dock9f8e''"
proof -
  have cut: "trace (snd (execCommand container_full [''sh''] env_exit17 (init_world no_files))) =
     [EvOpenFile ''/dev/ptmx'', EvPtsname 3, EvUnlockpt 3, EvStdinPipe, EvStart cmd_sh,
      EvWriteFile ''.nspid'' ''4242'' 429, EvCgroupsApply (Cgroup ''docker'') 4242,
      EvGenerateRandomName ''dock'' 4, EvGenerateRandomName ''dock'' 4,
      EvCreateVethPair ''dock0a1b'' ''dock9f8e'',
      EvSetInterfaceMaster ''dock0a1b'' ''docker0'', EvInterfaceUp ''dock0a1b'',
      EvSetInterfaceInNamespacePid ''dock9f8e'' 4242, EvPipeWrite ''dock9f8e''] @
     EvPipeClose #
     [EvGo MasterToStdout, EvGo StdinToMaster, EvGetWinsize, EvSetWinsize 3 (Winsize 24 80),
      EvSetRawTerminal, EvWait, EvRestoreTerminal 1, EvRemove ''.nspid'']"
    by (simp add: run_exit17)
  have net: "Network container_full = Some \<lparr>Bridge = ''docker0''\<rparr>"
    by (simp add: container_full_def)
  have ok: "Fprint_res env_exit17 = WriteOk"
    by (simp add: env_exit17_def env_ok_def)
  from control_channel_discipline [of container_full "[''sh'']" env_exit17 no_files]
  have "\<exists>front name pid.
      [EvOpenFile ''/dev/ptmx'', EvPtsname 3, EvUnlockpt 3, EvStdinPipe, EvStart cmd_sh,
       EvWriteFile ''.nspid'' ''4242'' 429, EvCgroupsApply (Cgroup ''docker'') 4242,
       EvGenerateRandomName ''dock'' 4, EvGenerateRandomName ''dock'' 4,
       EvCreateVethPair ''dock0a1b'' ''dock9f8e'',
       EvSetInterfaceMaster ''dock0a1b'' ''docker0'', EvInterfaceUp ''dock0a1b'',
       EvSetInterfaceInNamespacePid ''dock9f8e'' 4242, EvPipeWrite ''dock9f8e''] =
        front @ [EvSetInterfaceInNamespacePid name pid, EvPipeWrite name] \<and>
      pipe_data (snd (execCommand container_full [''sh''] env_exit17 (init_world no_files))) =
        (case Fprint_res env_exit17 of WriteOk \<Rightarrow> name | WriteFailed n err \<Rightarrow> take n name)"
    using cut net by blast
  with cut net ok show ?thesis
    by auto
qed

text \<open>
  The claim as it was stated, that the payload is fully written before the channel is
  closed, fails when the write fails: here the write delivers nothing, and the channel is
  closed all the same, holding no byte of the name.
\<close>

theorem channel_closed_without_payload:
  "Network container_full = Some \<lparr>Bridge = ''docker0''\<rparr> \<and>
   trace (snd (execCommand container_full [''sh''] env_broken_pipe (init_world no_files))) =
     [EvOpenFile ''/dev/ptmx'', EvPtsname 3, EvUnlockpt 3, EvStdinPipe, EvStart cmd_sh,
      EvWriteFile ''.nspid'' ''4242'' 429, EvCgroupsApply (Cgroup ''docker'') 4242,
      EvGenerateRandomName ''dock'' 4, EvGenerateRandomName ''dock'' 4,
      EvCreateVethPair ''dock0a1b'' ''dock9f8e'',
      EvSetInterfaceMaster ''dock0a1b'' ''docker0'', EvInterfaceUp ''dock0a1b'',
      EvSetInterfaceInNamespacePid ''dock9f8e'' 4242, EvPipeWrite ''dock9f8e'',
      EvPipeClose, EvGo MasterToStdout, EvGo StdinToMaster, EvGetWinsize,
      EvSetWinsize 3 (Winsize 24 80), EvSetRawTerminal, EvWait, EvRestoreTerminal 1,
      EvRemove ''.nspid''] \<and>
   pipe_closed (snd (execCommand container_full [''sh''] env_broken_pipe (init_world no_files))) \<and>
   pipe_data (snd (execCommand container_full [''sh''] env_broken_pipe (init_world no_files))) \<noteq>
     ''dock9f8e''"
proof -
  have "Network container_full = Some \<lparr>Bridge = ''docker0''\<rparr>"
    by (simp add: container_full_def)
  then show ?thesis
    by (simp add: run_broken_pipe)
qed

text \<open>
  Claim C4, as the code has it. A launch that got as far as waiting for the child returns
  what \<open>ExitStatus()\<close> reports and no error whenever the wait returns without error or
  with an \<open>*exec.ExitError\<close>: for a child that exited with status \<open>N\<close> (0 to 255) that
  is \<open>N\<close>, so a non-zero exit is an exit code and not an error; for a child that was ended
  by a signal it is \<open>-1\<close>, again with no error. A wait error of any other type is
  returned with \<open>-1\<close>. A launch that did not get as far as the wait, because a setup step
  failed, returns \<open>-1\<close> and a non-nil error.
\<close>

theorem exit_translation:
  assumes "execCommand c args env (init_world fs) = ((code, err), w)"
  shows "(EvWait \<in> set (trace w) \<and>
            (Wait_res env = None \<or> (\<exists>e. Wait_res env = Some e \<and> is_ExitError e)) \<longrightarrow>
          code = ExitStatus (WaitStatus_res env) \<and> err = None) \<and>
         (\<forall>status. EvWait \<in> set (trace w) \<and>
            (Wait_res env = None \<or> (\<exists>e. Wait_res env = Some e \<and> is_ExitError e)) \<and>
            WaitStatus_res env = Exited status \<longrightarrow>
          code = uint status \<and> 0 \<le> code \<and> code \<le> 255 \<and> err = None) \<and>
         (\<forall>sig. EvWait \<in> set (trace w) \<and>
            (Wait_res env = None \<or> (\<exists>e. Wait_res env = Some e \<and> is_ExitError e)) \<and>
            WaitStatus_res env = Signaled sig \<longrightarrow>
          code = - 1 \<and> err = None) \<and>
         (\<forall>e. EvWait \<in> set (trace w) \<and> Wait_res env = Some e \<and> \<not> is_ExitError e \<longrightarrow>
          code = - 1 \<and> err = Some e) \<and>
         (EvWait \<notin> set (trace w) \<longrightarrow> code = - 1 \<and> err \<noteq> None)"
proof -
  have "case execCommand c args env (init_world fs) of
      ((code, err), w) \<Rightarrow>
        if EvWait \<in> set (trace w)
        then (case Wait_res env of
                None \<Rightarrow> code = ExitStatus (WaitStatus_res env) \<and> err = None
              | Some e \<Rightarrow>
                  if is_ExitError e then code = ExitStatus (WaitStatus_res env) \<and> err = None
                  else code = - 1 \<and> err = Some e)
        else code = - 1 \<and> err \<noteq> None"
    by (rule execCommand_paths [of env c args fs])
      (auto simp add: run_simps split: option.splits)
  with assms have general:
    "EvWait \<in> set (trace w) \<and>
       (Wait_res env = None \<or> (\<exists>e. Wait_res env = Some e \<and> is_ExitError e)) \<longrightarrow>
     code = ExitStatus (WaitStatus_res env) \<and> err = None"
    "\<forall>e. EvWait \<in> set (trace w) \<and> Wait_res env = Some e \<and> \<not> is_ExitError e \<longrightarrow>
     code = - 1 \<and> err = Some e"
    "EvWait \<notin> set (trace w) \<longrightarrow> code = - 1 \<and> err \<noteq> None"
    by (auto split: option.splits if_splits)
  have range: "0 \<le> uint status \<and> uint status \<le> 255" for status :: "8 word"
    using uint_lt2p [of status] by simp
  from general(1) range have exited:
    "\<forall>status. EvWait \<in> set (trace w) \<and>
       (Wait_res env = None \<or> (\<exists>e. Wait_res env = Some e \<and> is_ExitError e)) \<and>
       WaitStatus_res env = Exited status \<longrightarrow>
     code = uint status \<and> 0 \<le> code \<and> code \<le> 255 \<and> err = None"
    by auto
  from general(1) have signalled:
    "\<forall>sig. EvWait \<in> set (trace w) \<and>
       (Wait_res env = None \<or> (\<exists>e. Wait_res env = Some e \<and> is_ExitError e)) \<and>
       WaitStatus_res env = Signaled sig \<longrightarrow>
     code = - 1 \<and> err = None"
    by auto
  from general exited signalled show ?thesis
    by blast
qed

theorem exit_translation_witness:
  "(EvWait \<in> set (trace (snd (execCommand container_full [''sh''] env_exit17 (init_world no_files)))) \<and>
    (\<exists>e. Wait_res env_exit17 = Some e \<and> is_ExitError e) \<and>
    WaitStatus_res env_exit17 = Exited 17 \<and>
    fst (execCommand container_full [''sh''] env_exit17 (init_world no_files)) = (17, None)) \<and>
   (EvWait \<in> set (trace (snd (execCommand container_full [''sh''] env_wait_lost (init_world no_files)))) \<and>
    Wait_res env_wait_lost = Some (Error ''wait: no child processes'') \<and>
    \<not> is_ExitError (Error ''wait: no child processes'') \<and>
    fst (execCommand container_full [''sh''] env_wait_lost (init_world no_files)) =
      (- 1, Some (Error ''wait: no child processes''))) \<and>
   (EvWait \<notin> set (trace (snd (execCommand container_full [''sh''] env_no_pty (init_world no_files)))) \<and>
    fst (fst (execCommand container_full [''sh''] env_no_pty (init_world no_files))) = - 1 \<and>
    snd (fst (execCommand container_full [''sh''] env_no_pty (init_world no_files))) \<noteq> None)"
proof -
  let ?exit17 = "execCommand container_full [''sh''] env_exit17 (init_world no_files)"
  let ?lost = "execCommand container_full [''sh''] env_wait_lost (init_world no_files)"
  let ?no_pty = "execCommand container_full [''sh''] env_no_pty (init_world no_files)"
  have waited: "EvWait \<in> set (trace (snd ?exit17))" "EvWait \<in> set (trace (snd ?lost))"
    "EvWait \<notin> set (trace (snd ?no_pty))"
    by (simp_all add: run_exit17 run_wait_lost run_no_pty)
  have answers: "Wait_res env_exit17 = Some (ExitError ''exit status 17'')"
    "WaitStatus_res env_exit17 = Exited 17"
    "Wait_res env_wait_lost = Some (Error ''wait: no child processes'')"
    by (simp_all add: env_exit17_def env_wait_lost_def)
  from exit_translation [of container_full "[''sh'']" env_exit17 no_files
      "fst (fst ?exit17)" "snd (fst ?exit17)" "snd ?exit17"] waited answers
  have "fst ?exit17 = (17, None)"
    by (simp add: prod_eq_iff)
  moreover
  from exit_translation [of container_full "[''sh'']" env_wait_lost no_files
      "fst (fst ?lost)" "snd (fst ?lost)" "snd ?lost"] waited answers
  have "fst ?lost = (- 1, Some (Error ''wait: no child processes''))"
    by (simp add: prod_eq_iff)
  moreover
  from exit_translation [of container_full "[''sh'']" env_no_pty no_files
      "fst (fst ?no_pty)" "snd (fst ?no_pty)" "snd ?no_pty"] waited
  have "fst (fst ?no_pty) = - 1 \<and> snd (fst ?no_pty) \<noteq> None"
    by simp
  ultimately show ?thesis
    using waited answers by simp
qed

text \<open>
  The claim as it was stated, that a wait failure which is not a non-zero exit of the
  child comes back as \<open>-1\<close> with that error, fails for a child ended by a signal: the
  wait returns an \<open>*exec.ExitError\<close> although the child did not exit, and the launch
  returns \<open>-1\<close> and no error.
\<close>

theorem signalled_child_returns_no_error:
  "Wait_res env_signalled = Some (ExitError ''signal: killed'') \<and>
   WaitStatus_res env_signalled = Signaled 9 \<and>
   EvWait \<in>
     set (trace (snd (execCommand container_full [''sh''] env_signalled (init_world no_files)))) \<and>
   fst (execCommand container_full [''sh''] env_signalled (init_world no_files)) = (- 1, None)"
proof -
  have "Wait_res env_signalled = Some (ExitError ''signal: killed'')"
    and "WaitStatus_res env_signalled = Signaled 9"
    by (simp_all add: env_signalled_def)
  then show ?thesis
    by (simp add: run_signalled)
qed

text \<open>
  Claim C5. If the resource-limit application reports failure, the launch kills the
  child, returns that (non-nil) error with the code \<open>-1\<close>, and the pid marker file is
  absent after the launch has returned: the launch ends with the failed \<open>Apply\<close>, the
  kill and the removal of \<open>.nspid\<close>.
\<close>

theorem limit_failure_cleanup:
  assumes "EvCgroupsApply cg pid \<in> set (trace (snd (execCommand c args env (init_world fs))))"
    and "Apply_res env cg pid = Some err"
  shows "fst (execCommand c args env (init_world fs)) = (- 1, Some err) \<and>
    (\<exists>pre. trace (snd (execCommand c args env (init_world fs))) =
       pre @ [EvCgroupsApply cg pid, EvKill pid, EvRemove ''.nspid'']) \<and>
    files (snd (execCommand c args env (init_world fs))) ''.nspid'' = None"
  using assms
  by (rule_tac execCommand_paths [of env c args fs])
    (auto simp add: run_simps split: option.splits)

theorem limit_failure_cleanup_witness:
  "EvCgroupsApply (Cgroup ''docker'') 4242 \<in>
     set (trace (snd (execCommand container_full [''sh''] env_limit_fails (init_world no_files)))) \<and>
   Apply_res env_limit_fails (Cgroup ''docker'') 4242 = Some (Error ''cgroup: permission denied'') \<and>
   fst (execCommand container_full [''sh''] env_limit_fails (init_world no_files)) =
     (- 1, Some (Error ''cgroup: permission denied'')) \<and>
   files (snd (execCommand container_full [''sh''] env_limit_fails (init_world no_files)))
     ''.nspid'' = None"
proof -
  have called: "EvCgroupsApply (Cgroup ''docker'') 4242 \<in>
     set (trace (snd (execCommand container_full [''sh''] env_limit_fails (init_world no_files))))"
    by (simp add: run_limit_fails)
  have failed: "Apply_res env_limit_fails (Cgroup ''docker'') 4242 =
     Some (Error ''cgroup: permission denied'')"
    by (simp add: env_limit_fails_def)
  from limit_failure_cleanup [OF called failed] called failed show ?thesis
    by blast
qed

text \<open>
  Claim C6, as the code has it. Nothing is retried when the creation of the veth pair
  fails, whatever the error (a name that already exists included): in the whole launch
  each of the two names is generated once and the creation of the pair is asked for once,
  and the error of \<open>network.CreateVethPair\<close> is returned unchanged as the error of the
  launch, with \<open>-1\<close>.
\<close>

theorem veth_creation_error_is_fatal:
  assumes cut: "trace (snd (execCommand c args env (init_world fs))) =
      pre @ EvCreateVethPair name1 name2 # post"
    and exists: "CreateVethPair_res env name1 name2 = Some err"
  shows "fst (execCommand c args env (init_world fs)) = (- 1, Some err) \<and>
    length (filter is_name_generation (trace (snd (execCommand c args env (init_world fs))))) = 2 \<and>
    length (filter is_veth_creation (trace (snd (execCommand c args env (init_world fs))))) = 1"
proof -
  have "cut_at (EvCreateVethPair name1 name2)
      (trace (snd (execCommand c args env (init_world fs)))) = Some (pre, post)"
    using cut pair_created_once by (rule cut_at_once)
  then show ?thesis
    using exists
    by (rule_tac execCommand_paths [of env c args fs])
      (auto simp add: run_simps split: option.splits if_splits)
qed

theorem veth_creation_error_is_fatal_witness:
  "trace (snd (execCommand container_full [''sh''] env_veth_exists (init_world no_files))) =
     [EvOpenFile ''/dev/ptmx'', EvPtsname 3, EvUnlockpt 3, EvStdinPipe, EvStart cmd_sh,
      EvWriteFile ''.nspid'' ''4242'' 429, EvCgroupsApply (Cgroup ''docker'') 4242,
      EvGenerateRandomName ''dock'' 4, EvGenerateRandomName ''dock'' 4] @
     EvCreateVethPair ''dock0a1b'' ''dock9f8e'' # [EvRemove ''.nspid''] \<and>
   CreateVethPair_res env_veth_exists ''dock0a1b'' ''dock9f8e'' = Some (Error ''file exists'') \<and>
   fst (execCommand container_full [''sh''] env_veth_exists (init_world no_files)) =
     (- 1, Some (Error ''file exists'')) \<and>
   length (filter is_name_generation
     (trace (snd (execCommand container_full [''sh''] env_veth_exists (init_world no_files))))) = 2 \<and>
   length (filter is_veth_creation
     (trace (snd (execCommand container_full [''sh''] env_veth_exists (init_world no_files))))) = 1"
proof -
  have cut: "trace (snd (execCommand container_full [''sh''] env_veth_exists (init_world no_files))) =
     [EvOpenFile ''/dev/ptmx'', EvPtsname 3, EvUnlockpt 3, EvStdinPipe, EvStart cmd_sh,
      EvWriteFile ''.nspid'' ''4242'' 429, EvCgroupsApply (Cgroup ''docker'') 4242,
      EvGenerateRandomName ''dock'' 4, EvGenerateRandomName ''dock'' 4] @
     EvCreateVethPair ''dock0a1b'' ''dock9f8e'' # [EvRemove ''.nspid'']"
    by (simp add: run_veth_exists)
  have exists: "CreateVethPair_res env_veth_exists ''dock0a1b'' ''dock9f8e'' =
     Some (Error ''file exists'')"
    by (simp add: env_veth_exists_def)
  from veth_creation_error_is_fatal [OF cut exists] cut exists show ?thesis
    by blast
qed

text \<open>
  The claim as it was stated, that a name collision is retried and never reaches the
  caller, fails: the collaborator reports that the name exists, the launch returns that
  error, and no third name has been generated.
\<close>

theorem veth_collision_reaches_caller:
  "CreateVethPair_res env_veth_exists ''dock0a1b'' ''dock9f8e'' = Some (Error ''file exists'') \<and>
   execCommand container_full [''sh''] env_veth_exists (init_world no_files) =
     ((- 1, Some (Error ''file exists'')),
      \<lparr>trace =
         [EvOpenFile ''/dev/ptmx'', EvPtsname 3, EvUnlockpt 3, EvStdinPipe, EvStart cmd_sh,
          EvWriteFile ''.nspid'' ''4242'' 429, EvCgroupsApply (Cgroup ''docker'') 4242,
          EvGenerateRandomName ''dock'' 4, EvGenerateRandomName ''dock'' 4,
          EvCreateVethPair ''dock0a1b'' ''dock9f8e'', EvRemove ''.nspid''],
       files = no_files, pipe_data = [], pipe_closed = False, rand_reads = 2\<rparr>)"
proof -
  have "CreateVethPair_res env_veth_exists ''dock0a1b'' ''dock9f8e'' =
     Some (Error ''file exists'')"
    by (simp add: env_veth_exists_def)
  then show ?thesis
    by (simp add: run_veth_exists)
qed

text \<open>
  Claim C7, as the code has it. After a successful start of the process the next call
  writes the pid marker: the path is \<open>.nspid\<close> (relative, so in the working directory),
  the content is the pid in decimal ASCII text, and the mode asked for is \<open>0655\<close>, which
  allows the owner to read and write and group and others to read. The mode the file
  then has is the mode of a \<open>.nspid\<close> that was already there, and otherwise \<open>0655\<close>
  without the bits of the process umask. If the write succeeds, the file is removed on
  every path out of the launch: the last call of the launch is the removal, and the file
  is absent afterwards. If the write fails, the child is killed, nothing else is called,
  and the error is returned with \<open>-1\<close>.
\<close>

theorem pid_marker:
  assumes cut: "trace (snd (execCommand c args env (init_world fs))) = pre @ EvStart cmd # post"
    and pid: "Start_res env = Inr pid"
  shows "\<exists>rest. post = EvWriteFile ''.nspid'' (Sprint pid) 429 # rest \<and>
    decimal_int (Sprint pid) = pid \<and> (0 \<le> pid \<longrightarrow> list_all is_digit (Sprint pid)) \<and>
    allows 429 S_IRUSR \<and> allows 429 S_IWUSR \<and> allows 429 S_IRGRP \<and> allows 429 S_IROTH \<and>
    (case WriteFile_res env of
       WriteFileOk \<Rightarrow>
         (\<forall>w. files (snd (writePidFile pid env w)) ''.nspid'' =
            Some \<lparr>content = Sprint pid,
                  perm = (case files w ''.nspid'' of
                            Some old \<Rightarrow> perm old
                          | None \<Rightarrow> 429 AND NOT (Umask env))\<rparr>) \<and>
         rest \<noteq> [] \<and> last rest = EvRemove ''.nspid'' \<and>
         files (snd (execCommand c args env (init_world fs))) ''.nspid'' = None
     | WriteFileFailed err left \<Rightarrow>
         rest = [EvKill pid] \<and> fst (execCommand c args env (init_world fs)) = (- 1, Some err))"
proof -
  have "cut_at (EvStart cmd) (trace (snd (execCommand c args env (init_world fs)))) =
      Some (pre, post)"
    using cut started_once by (rule cut_at_once)
  then have "\<exists>rest. post = EvWriteFile ''.nspid'' (Sprint pid) 429 # rest \<and>
    (case WriteFile_res env of
       WriteFileOk \<Rightarrow>
         rest \<noteq> [] \<and> last rest = EvRemove ''.nspid'' \<and>
         files (snd (execCommand c args env (init_world fs))) ''.nspid'' = None
     | WriteFileFailed err left \<Rightarrow>
         rest = [EvKill pid] \<and> fst (execCommand c args env (init_world fs)) = (- 1, Some err))"
    using pid
    by (rule_tac execCommand_paths [of env c args fs])
      (auto simp add: path_defs split: option.splits if_splits)
  then show ?thesis
    using decimal_int_Sprint [of pid] Sprint_digits [of pid] mode_0655 writePidFile_ok [of env pid]
    by (auto split: writefile_outcome.splits)
qed

theorem pid_marker_witness:
  "trace (snd (execCommand container_full [''sh''] env_exit17 (init_world no_files))) =
     [EvOpenFile ''/dev/ptmx'', EvPtsname 3, EvUnlockpt 3, EvStdinPipe] @
     EvStart cmd_sh #
     [EvWriteFile ''.nspid'' ''4242'' 429, EvCgroupsApply (Cgroup ''docker'') 4242,
      EvGenerateRandomName ''dock'' 4, EvGenerateRandomName ''dock'' 4,
      EvCreateVethPair ''dock0a1b'' ''dock9f8e'',
      EvSetInterfaceMaster ''dock0a1b'' ''docker0'', EvInterfaceUp ''dock0a1b'',
      EvSetInterfaceInNamespacePid ''dock9f8e'' 4242, EvPipeWrite ''dock9f8e'',
      EvPipeClose, EvGo MasterToStdout, EvGo StdinToMaster, EvGetWinsize,
      EvSetWinsize 3 (Winsize 24 80), EvSetRawTerminal, EvWait, EvRestoreTerminal 1,
      EvRemove ''.nspid''] \<and>
   Start_res env_exit17 = Inr 4242 \<and> (0::int) \<le> 4242 \<and>
   WriteFile_res env_exit17 = WriteFileOk \<and>
   decimal_int (Sprint 4242) = 4242 \<and> list_all is_digit (Sprint 4242) \<and>
   files (snd (execCommand container_full [''sh''] env_exit17 (init_world no_files))) ''.nspid'' =
     None \<and>
   trace (snd (execCommand container_full [''sh''] env_marker_fails (init_world no_files))) =
     [EvOpenFile ''/dev/ptmx'', EvPtsname 3, EvUnlockpt 3, EvStdinPipe] @
     EvStart cmd_sh # [EvWriteFile ''.nspid'' ''4242'' 429, EvKill 4242] \<and>
   Start_res env_marker_fails = Inr 4242 \<and>
   WriteFile_res env_marker_fails = WriteFileFailed (Error ''read-only file system'') None \<and>
   fst (execCommand container_full [''sh''] env_marker_fails (init_world no_files)) =
     (- 1, Some (Error ''read-only file system''))"
proof -
  have cut: "trace (snd (execCommand container_full [''sh''] env_exit17 (init_world no_files))) =
     [EvOpenFile ''/dev/ptmx'', EvPtsname 3, EvUnlockpt 3, EvStdinPipe] @
     EvStart cmd_sh #
     [EvWriteFile ''.nspid'' ''4242'' 429, EvCgroupsApply (Cgroup ''docker'') 4242,
      EvGenerateRandomName ''dock'' 4, EvGenerateRandomName ''dock'' 4,
      EvCreateVethPair ''dock0a1b'' ''dock9f8e'',
      EvSetInterfaceMaster ''dock0a1b'' ''docker0'', EvInterfaceUp ''dock0a1b'',
      EvSetInterfaceInNamespacePid ''dock9f8e'' 4242, EvPipeWrite ''dock9f8e'',
      EvPipeClose, EvGo MasterToStdout, EvGo StdinToMaster, EvGetWinsize,
      EvSetWinsize 3 (Winsize 24 80), EvSetRawTerminal, EvWait, EvRestoreTerminal 1,
      EvRemove ''.nspid'']"
    by (simp add: run_exit17)
  have pid: "Start_res env_exit17 = Inr 4242"
    and ok: "WriteFile_res env_exit17 = WriteFileOk"
    by (simp_all add: env_exit17_def env_ok_def)
  have cut': "trace (snd (execCommand container_full [''sh''] env_marker_fails (init_world no_files))) =
     [EvOpenFile ''/dev/ptmx'', EvPtsname 3, EvUnlockpt 3, EvStdinPipe] @
     EvStart cmd_sh # [EvWriteFile ''.nspid'' ''4242'' 429, EvKill 4242]"
    by (simp add: run_marker_fails)
  have pid': "Start_res env_marker_fails = Inr 4242"
    and failed: "WriteFile_res env_marker_fails =
      WriteFileFailed (Error ''read-only file system'') None"
    by (simp_all add: env_marker_fails_def env_ok_def)
  from pid_marker [OF cut pid] ok
  have "decimal_int (Sprint 4242) = 4242 \<and> list_all is_digit (Sprint 4242) \<and>
    files (snd (execCommand container_full [''sh''] env_exit17 (init_world no_files))) ''.nspid'' =
      None"
    by auto
  moreover
  from pid_marker [OF cut' pid'] failed
  have "fst (execCommand container_full [''sh''] env_marker_fails (init_world no_files)) =
     (- 1, Some (Error ''read-only file system''))"
    by auto
  ultimately show ?thesis
    using cut pid ok cut' pid' failed by simp
qed

text \<open>
  The claim as it was stated, that the mode of the file allows group and others to read,
  fails under a umask that takes these bits away: with the umask \<open>077\<close> the marker that
  \<open>writePidFile\<close> creates has the mode \<open>0600\<close>.
\<close>

theorem marker_mode_follows_umask:
  "WriteFile_res env_umask_077 = WriteFileOk \<and>
   files (snd (writePidFile 4242 env_umask_077 (init_world no_files))) ''.nspid'' =
     Some \<lparr>content = ''4242'', perm = 384\<rparr> \<and>
   allows 384 S_IRUSR \<and> allows 384 S_IWUSR \<and> \<not> allows 384 S_IRGRP \<and> \<not> allows 384 S_IROTH"
proof -
  have ok: "WriteFile_res env_umask_077 = WriteFileOk"
    and umask: "Umask env_umask_077 = 63"
    by (simp_all add: env_umask_077_def env_ok_def)
  have "files (init_world no_files) ''.nspid'' = None"
    by (simp add: init_world_def no_files_def)
  with writePidFile_ok [OF ok, of 4242 "init_world no_files"] umask
  have "files (snd (writePidFile 4242 env_umask_077 (init_world no_files))) ''.nspid'' =
     Some \<lparr>content = ''4242'', perm = 384\<rparr>"
    by (simp add: Sprint_4242 mode_0600)
  with ok mode_0600 show ?thesis
    by simp
qed




text \<open>
  Claim C9. A failure of the write of the interface name into the control channel is
  dropped: whatever the write answers, the launch returns the same code and error, makes
  the same calls in the same order, and leaves the same files and the channel closed or
  not; and in every launch the call after the write is the close of the channel.
\<close>

theorem handshake_write_unchecked:
  "fst (execCommand c args (env\<lparr>Fprint_res := out\<rparr>) (init_world fs)) =
     fst (execCommand c args env (init_world fs)) \<and>
   trace (snd (execCommand c args (env\<lparr>Fprint_res := out\<rparr>) (init_world fs))) =
     trace (snd (execCommand c args env (init_world fs))) \<and>
   files (snd (execCommand c args (env\<lparr>Fprint_res := out\<rparr>) (init_world fs))) =
     files (snd (execCommand c args env (init_world fs))) \<and>
   pipe_closed (snd (execCommand c args (env\<lparr>Fprint_res := out\<rparr>) (init_world fs))) =
     pipe_closed (snd (execCommand c args env (init_world fs))) \<and>
   (\<forall>pre name post.
      trace (snd (execCommand c args env (init_world fs))) = pre @ EvPipeWrite name # post \<longrightarrow>
      (\<exists>rest. post = EvPipeClose # rest))"
proof -
  have "fst (execCommand c args (env\<lparr>Fprint_res := out\<rparr>) (init_world fs)) =
     fst (execCommand c args env (init_world fs)) \<and>
   trace (snd (execCommand c args (env\<lparr>Fprint_res := out\<rparr>) (init_world fs))) =
     trace (snd (execCommand c args env (init_world fs))) \<and>
   files (snd (execCommand c args (env\<lparr>Fprint_res := out\<rparr>) (init_world fs))) =
     files (snd (execCommand c args env (init_world fs))) \<and>
   pipe_closed (snd (execCommand c args (env\<lparr>Fprint_res := out\<rparr>) (init_world fs))) =
     pipe_closed (snd (execCommand c args env (init_world fs)))"
    by (rule execCommand_paths [of env c args fs];
        rule execCommand_paths [of "env\<lparr>Fprint_res := out\<rparr>" c args fs])
      (auto simp add: run_simps split: option.splits sum.splits)
  with close_follows_write [of c args env fs] show ?thesis
    by blast
qed

theorem handshake_write_unchecked_witness:
  "trace (snd (execCommand container_full [''sh''] env_exit17 (init_world no_files))) =
     [EvOpenFile ''/dev/ptmx'', EvPtsname 3, EvUnlockpt 3, EvStdinPipe, EvStart cmd_sh,
      EvWriteFile ''.nspid'' ''4242'' 429, EvCgroupsApply (Cgroup ''docker'') 4242,
      EvGenerateRandomName ''dock'' 4, EvGenerateRandomName ''dock'' 4,
      EvCreateVethPair ''dock0a1b'' ''dock9f8e'',
      EvSetInterfaceMaster ''dock0a1b'' ''docker0'', EvInterfaceUp ''dock0a1b'',
      EvSetInterfaceInNamespacePid ''dock9f8e'' 4242] @
     EvPipeWrite ''dock9f8e'' #
     [EvPipeClose, EvGo MasterToStdout, EvGo StdinToMaster, EvGetWinsize,
      EvSetWinsize 3 (Winsize 24 80), EvSetRawTerminal, EvWait, EvRestoreTerminal 1,
      EvRemove ''.nspid''] \<and>
   fst (execCommand container_full [''sh'']
     (env_exit17\<lparr>Fprint_res := WriteFailed 0 (Error ''broken pipe'')\<rparr>) (init_world no_files)) =
     (17, None)"
proof -
  have cut: "trace (snd (execCommand container_full [''sh''] env_exit17 (init_world no_files))) =
     [EvOpenFile ''/dev/ptmx'', EvPtsname 3, EvUnlockpt 3, EvStdinPipe, EvStart cmd_sh,
      EvWriteFile ''.nspid'' ''4242'' 429, EvCgroupsApply (Cgroup ''docker'') 4242,
      EvGenerateRandomName ''dock'' 4, EvGenerateRandomName ''dock'' 4,
      EvCreateVethPair ''dock0a1b'' ''dock9f8e'',
      EvSetInterfaceMaster ''dock0a1b'' ''docker0'', EvInterfaceUp ''dock0a1b'',
      EvSetInterfaceInNamespacePid ''dock9f8e'' 4242] @
     EvPipeWrite ''dock9f8e'' #
     [EvPipeClose, EvGo MasterToStdout, EvGo StdinToMaster, EvGetWinsize,
      EvSetWinsize 3 (Winsize 24 80), EvSetRawTerminal, EvWait, EvRestoreTerminal 1,
      EvRemove ''.nspid'']"
    by (simp add: run_exit17)
  from handshake_write_unchecked [where c = container_full and args = "[''sh'']"
      and env = env_exit17 and out = "WriteFailed 0 (Error ''broken pipe'')" and fs = no_files]
  have "fst (execCommand container_full [''sh'']
     (env_exit17\<lparr>Fprint_res := WriteFailed 0 (Error ''broken pipe'')\<rparr>) (init_world no_files)) =
     (17, None)"
    by (simp add: run_exit17)
  with cut show ?thesis
    by simp
qed

text \<open>
  Claim C10. The two names of a veth pair come from two calls of the same generator with
  the same arguments (prefix \<open>dock\<close>, four random characters), and nothing compares them
  before the pair is created: there is an outcome of the random source for which
  \<open>createVethPair\<close> asks for a pair whose two ends have the same name, and returns that
  name twice.
\<close>

theorem veth_names_may_coincide:
  "\<exists>env. \<forall>w. \<exists>name.
     createVethPair env w =
       (Inr (name, name),
        w\<lparr>trace := trace w @
             [EvGenerateRandomName ''dock'' 4, EvGenerateRandomName ''dock'' 4,
              EvCreateVethPair name name],
           rand_reads := Suc (Suc (rand_reads w))\<rparr>) \<and>
     take 4 name = ''dock'' \<and> length name = 8"
  by (rule exI [of _ env_twin])
    (simp add: createVethPair_def GenerateRandomName_def emit_def Let_def env_twin_def env_ok_def)

end
